theory Spec2Isabelle
  imports Complex_Main "HOL-Library.List_Lexorder" "HOL-Library.Option_ord"
begin

section \<open>JavaScript strings and numbers\<close>

text \<open>
  A JavaScript string is the list of its UTF-16 code units; \<open>length\<close>, \<open>take\<close> and \<open>drop\<close> count
  code units as \<open>.length\<close> and \<open>.substring\<close> do. \<open>ascii\<close> writes the literals of the source.
\<close>

type_synonym jsstring = "nat list"

definition ascii :: "string \<Rightarrow> jsstring" where
  "ascii s = map of_char s"

text \<open>
  The white space and line terminators that \<open>trim\<close>, \<open>parseInt\<close> and the conversion of a
  string to a number skip: tab, line feed, vertical tab, form feed, carriage return, space,
  U+00A0, U+1680, U+2000 to U+200A, U+2028, U+2029, U+202F, U+205F, U+3000 and U+FEFF.
\<close>

definition is_ws :: "nat \<Rightarrow> bool" where
  "is_ws c =
     (c \<in> set [9, 10, 11, 12, 13, 32, 160, 5760, 8232, 8233, 8239, 8287, 12288, 65279]
      \<or> (8192 \<le> c \<and> c \<le> 8202))"

text \<open>\<open>String.prototype.trim\<close>: white space is dropped at both ends.\<close>

definition trim :: "jsstring \<Rightarrow> jsstring" where
  "trim s = rev (dropWhile is_ws (rev (dropWhile is_ws s)))"

text \<open>
  A JavaScript number: \<open>NaN\<close>, an infinity or a finite value. \<open>fl\<close> rounds a real to the
  nearest double, ties to even (binary64: 53 bits, exponents from -1022, overflow to an
  infinity from \<open>2 ^ 1024\<close>); the sign of a zero is not kept, no operation here tells it.
\<close>

datatype jsnum = NaN | PInf | NInf | Fin real

definition round_half_even :: "real \<Rightarrow> int" where
  "round_half_even r =
     (let f = \<lfloor>r\<rfloor> in
      if r - of_int f < 1 / 2 then f
      else if 1 / 2 < r - of_int f then f + 1
      else if even f then f else f + 1)"

definition fl :: "real \<Rightarrow> jsnum" where
  "fl x =
     (if x = 0 then Fin 0
      else
        let e = max \<lfloor>log 2 \<bar>x\<bar>\<rfloor> (- 1022);
            u = 2 powr (of_int e - 52);
            m = of_int (round_half_even (\<bar>x\<bar> / u)) * u
        in if 2 ^ 1024 \<le> m then (if 0 < x then PInf else NInf)
           else Fin (if 0 < x then m else - m))"

fun jsneg :: "jsnum \<Rightarrow> jsnum" where
  "jsneg NaN = NaN"
| "jsneg PInf = NInf"
| "jsneg NInf = PInf"
| "jsneg (Fin a) = Fin (- a)"

text \<open>The operators \<open>+\<close> (on two numbers), \<open>-\<close>, \<open>*\<close> and the comparison by greater-than.\<close>

fun jsadd :: "jsnum \<Rightarrow> jsnum \<Rightarrow> jsnum" where
  "jsadd NaN y = NaN"
| "jsadd x NaN = NaN"
| "jsadd PInf NInf = NaN"
| "jsadd NInf PInf = NaN"
| "jsadd PInf y = PInf"
| "jsadd NInf y = NInf"
| "jsadd x PInf = PInf"
| "jsadd x NInf = NInf"
| "jsadd (Fin a) (Fin b) = fl (a + b)"

definition jssub :: "jsnum \<Rightarrow> jsnum \<Rightarrow> jsnum" where
  "jssub x y = jsadd x (jsneg y)"

definition jssign :: "jsnum \<Rightarrow> int" where
  "jssign x =
     (case x of
        NaN \<Rightarrow> 0 | PInf \<Rightarrow> 1 | NInf \<Rightarrow> - 1
      | Fin a \<Rightarrow> if a = 0 then 0 else if 0 < a then 1 else - 1)"

fun jsmul :: "jsnum \<Rightarrow> jsnum \<Rightarrow> jsnum" where
  "jsmul NaN y = NaN"
| "jsmul x NaN = NaN"
| "jsmul (Fin a) (Fin b) = fl (a * b)"
| "jsmul x y =
     (if jssign x * jssign y = 0 then NaN else if 0 < jssign x * jssign y then PInf else NInf)"

fun jsgt :: "jsnum \<Rightarrow> jsnum \<Rightarrow> bool" where
  "jsgt NaN y = False"
| "jsgt x NaN = False"
| "jsgt PInf y = (y \<noteq> PInf)"
| "jsgt NInf y = False"
| "jsgt (Fin a) PInf = False"
| "jsgt (Fin a) NInf = True"
| "jsgt (Fin a) (Fin b) = (b < a)"

section \<open>Values of the request\<close>

text \<open>
  A field of \<open>req.body\<close> as body-parser delivers it with \<open>extended: true\<close>: absent
  (\<open>undefined\<close>), a string, an array or an object of such values.
\<close>

datatype jsval = Undefined | Str jsstring | Arr "jsval list" | Obj "(jsstring \<times> jsval) list"

text \<open>Only \<open>undefined\<close> and the empty string are falsy.\<close>

definition truthy :: "jsval \<Rightarrow> bool" where
  "truthy v = (v \<noteq> Undefined \<and> v \<noteq> Str [])"

text \<open>
  The conversion to a string: an array joins the strings of its elements with commas (an
  \<open>undefined\<close> element gives the empty string), an object is \<open>[object Object]\<close>.
\<close>

fun ToString :: "jsval \<Rightarrow> jsstring" and join_elements :: "jsval list \<Rightarrow> jsstring" where
  "ToString Undefined = ascii ''undefined''"
| "ToString (Str s) = s"
| "ToString (Arr vs) = join_elements vs"
| "ToString (Obj kvs) = ascii ''[object Object]''"
| "join_elements [] = []"
| "join_elements [v] = (if v = Undefined then [] else ToString v)"
| "join_elements (v # w # vs) =
     (if v = Undefined then [] else ToString v) @ [44] @ join_elements (w # vs)"

text \<open>\<open>v.trim()\<close>: only a string has the method; on an array or an object the call throws.\<close>

definition call_trim :: "jsval \<Rightarrow> jsstring option" where
  "call_trim v = (case v of Str s \<Rightarrow> Some (trim s) | _ \<Rightarrow> None)"

text \<open>
  \<open>parseInt(v)\<close> without a radix: the argument is converted to a string, leading white space
  is skipped, an optional sign is read, a prefix \<open>0x\<close> or \<open>0X\<close> selects radix 16 (otherwise 10),
  and the longest run of digits of that radix is the value, as a double. No digit at all
  gives \<open>NaN\<close>.
\<close>

definition digit_of :: "nat \<Rightarrow> nat option" where
  "digit_of c =
     (if 48 \<le> c \<and> c \<le> 57 then Some (c - 48)
      else if 97 \<le> c \<and> c \<le> 122 then Some (c - 87)
      else if 65 \<le> c \<and> c \<le> 90 then Some (c - 55)
      else None)"

definition is_digit :: "nat \<Rightarrow> nat \<Rightarrow> bool" where
  "is_digit R c = (case digit_of c of None \<Rightarrow> False | Some d \<Rightarrow> d < R)"

definition digits_value :: "nat \<Rightarrow> jsstring \<Rightarrow> int" where
  "digits_value R ds =
     foldl (\<lambda>a c. a * int R + (case digit_of c of None \<Rightarrow> 0 | Some d \<Rightarrow> int d)) 0 ds"

definition parseInt :: "jsval \<Rightarrow> jsnum" where
  "parseInt v =
     (let s = dropWhile is_ws (ToString v);
          sign = (if take 1 s = ascii ''-'' then - 1 else 1);
          s1 = (if take 1 s = ascii ''-'' \<or> take 1 s = ascii ''+'' then drop 1 s else s);
          hex = (take 2 s1 = ascii ''0x'' \<or> take 2 s1 = ascii ''0X'');
          R = (if hex then 16 else 10);
          s2 = (if hex then drop 2 s1 else s1);
          ds = takeWhile (is_digit R) s2
      in if ds = [] then NaN else fl (of_int (sign * digits_value R ds)))"

text \<open>\<open>parseInt(v) || 0\<close>: \<open>NaN\<close> and \<open>0\<close> are falsy, every other number is itself.\<close>

definition parseInt_or_0 :: "jsval \<Rightarrow> jsnum" where
  "parseInt_or_0 v = (case parseInt v of NaN \<Rightarrow> Fin 0 | n \<Rightarrow> n)"

section \<open>Values of the database\<close>

text \<open>
  The schema declares no table \<open>STRICT\<close>, so a column holds what was bound to it, after the
  affinity of the column: \<open>NULL\<close>, a number, or a text. A text bound to an \<open>INTEGER\<close> or \<open>REAL\<close>
  column becomes a number when the whole of it, white space at either end apart, is a
  decimal literal with optional sign, fraction and exponent, and stays the text otherwise.
  JavaScript reads an integer and a real alike as a number, so one constructor holds both;
  a \<open>NaN\<close> that is bound is stored as \<open>NULL\<close>.
\<close>

datatype sqlval = SNull | SNumber jsnum | SText jsstring

definition is_dec :: "nat \<Rightarrow> bool" where
  "is_dec c = (48 \<le> c \<and> c \<le> 57)"

text \<open>
  A decimal literal, the whole string: sign, digits, a point with digits, an exponent with
  its own sign; at least one digit before the exponent and, where there is an exponent
  mark, at least one after. The value is exact.
\<close>

definition decimal_literal :: "jsstring \<Rightarrow> real option" where
  "decimal_literal s =
     (let neg = (take 1 s = ascii ''-'');
          s1 = (if take 1 s = ascii ''-'' \<or> take 1 s = ascii ''+'' then drop 1 s else s);
          ip = takeWhile is_dec s1;
          r1 = dropWhile is_dec s1;
          dot = (take 1 r1 = ascii ''.'');
          r2 = (if dot then drop 1 r1 else r1);
          fp = (if dot then takeWhile is_dec r2 else []);
          r3 = (if dot then dropWhile is_dec r2 else r2);
          ex = (take 1 r3 = ascii ''e'' \<or> take 1 r3 = ascii ''E'');
          r4 = (if ex then drop 1 r3 else r3);
          eneg = (ex \<and> take 1 r4 = ascii ''-'');
          r5 = (if ex \<and> (take 1 r4 = ascii ''-'' \<or> take 1 r4 = ascii ''+'') then drop 1 r4 else r4);
          ed = (if ex then takeWhile is_dec r5 else []);
          r6 = (if ex then dropWhile is_dec r5 else r5);
          mant = of_int (digits_value 10 (ip @ fp)) / 10 ^ length fp;
          ev = nat (digits_value 10 ed)
      in if ip = [] \<and> fp = [] then None
         else if ex \<and> ed = [] then None
         else if r6 \<noteq> [] then None
         else Some ((if neg then - 1 else 1) * (if eneg then mant / 10 ^ ev else mant * 10 ^ ev)))"

text \<open>The white space SQLite skips around a number: space, tab, line feed, vertical tab, form feed, carriage return.\<close>

definition is_sqlite_space :: "nat \<Rightarrow> bool" where
  "is_sqlite_space c = (c = 32 \<or> (9 \<le> c \<and> c \<le> 13))"

definition sqlite_numeric :: "jsstring \<Rightarrow> real option" where
  "sqlite_numeric t =
     decimal_literal (rev (dropWhile is_sqlite_space (rev (dropWhile is_sqlite_space t))))"

text \<open>What an \<open>INTEGER\<close> or \<open>REAL\<close> column holds after a text was bound to it.\<close>

definition numeric_affinity :: "jsstring \<Rightarrow> sqlval" where
  "numeric_affinity t = (case sqlite_numeric t of None \<Rightarrow> SText t | Some v \<Rightarrow> SNumber (fl v))"

text \<open>
  The integer a text is compared as against an integer key: its numeric value when that is
  an integer; a text that is no number, or no integer, equals no key.
\<close>

definition sqlite_id :: "jsstring \<Rightarrow> int option" where
  "sqlite_id t =
     (case sqlite_numeric t of
        None \<Rightarrow> None
      | Some v \<Rightarrow> if of_int \<lfloor>v\<rfloor> = v then Some \<lfloor>v\<rfloor> else None)"

text \<open>What a column holds after a JavaScript number was bound to it.\<close>

definition number_column :: "jsnum \<Rightarrow> sqlval" where
  "number_column n = (if n = NaN then SNull else SNumber n)"

text \<open>
  The conversion of a string to a number, as the operators \<open>-\<close> and \<open>*\<close> apply it: white
  space is trimmed; the empty string is 0; \<open>Infinity\<close> with an optional sign; a decimal literal;
  an unsigned literal of radix 16, 8 or 2 with its prefix; everything else is \<open>NaN\<close>.
\<close>

definition radix_literal :: "nat \<Rightarrow> jsstring \<Rightarrow> jsnum" where
  "radix_literal R ds =
     (if ds \<noteq> [] \<and> list_all (is_digit R) ds then fl (of_int (digits_value R ds)) else NaN)"

definition StringToNumber :: "jsstring \<Rightarrow> jsnum" where
  "StringToNumber s0 =
     (let s = trim s0 in
      if s = [] then Fin 0
      else if s = ascii ''Infinity'' \<or> s = ascii ''+Infinity'' then PInf
      else if s = ascii ''-Infinity'' then NInf
      else if take 2 s = ascii ''0x'' \<or> take 2 s = ascii ''0X'' then radix_literal 16 (drop 2 s)
      else if take 2 s = ascii ''0o'' \<or> take 2 s = ascii ''0O'' then radix_literal 8 (drop 2 s)
      else if take 2 s = ascii ''0b'' \<or> take 2 s = ascii ''0B'' then radix_literal 2 (drop 2 s)
      else (case decimal_literal s of None \<Rightarrow> NaN | Some v \<Rightarrow> fl v))"

text \<open>The number an arithmetic operator makes of a column value read from a row.\<close>

definition ToNumber :: "sqlval \<Rightarrow> jsnum" where
  "ToNumber v = (case v of SNull \<Rightarrow> Fin 0 | SNumber n \<Rightarrow> n | SText t \<Rightarrow> StringToNumber t)"

text \<open>
  \<open>COALESCE(SUM(column), 0)\<close> as JavaScript reads it. The handlers bind numbers only to the
  summed columns. Opposite infinities add up to \<open>NaN\<close>, which SQLite returns as \<open>NULL\<close>, hence
  0. The finite sum is taken exactly and rounded once (SQLite's own error for an integer sum
  beyond 64 bits is outside the model).
\<close>

definition numbers_of :: "sqlval list \<Rightarrow> jsnum list" where
  "numbers_of vs = concat (map (\<lambda>v. case v of SNumber n \<Rightarrow> [n] | _ \<Rightarrow> []) vs)"

definition finite_sum :: "jsnum list \<Rightarrow> real" where
  "finite_sum ns = sum_list (map (\<lambda>n. case n of Fin a \<Rightarrow> a | _ \<Rightarrow> 0) ns)"

definition coalesce_sum :: "sqlval list \<Rightarrow> jsnum" where
  "coalesce_sum vs =
     (let ns = numbers_of vs in
      if PInf \<in> set ns \<and> NInf \<in> set ns then Fin 0
      else if PInf \<in> set ns then PInf
      else if NInf \<in> set ns then NInf
      else fl (finite_sum ns))"

section \<open>The persisted tables\<close>

text \<open>
  One record per table of the schema, a table being the list of its rows in rowid order.
  \<open>TEXT\<close> columns hold strings (an option where the handlers read a \<open>NULL\<close>), the key columns
  integers, and the columns of ticket numbers and costs whatever value was bound.
  The two \<open>AUTOINCREMENT\<close> counters the handlers advance are fields of the store.
  \<open>CURRENT_TIMESTAMP\<close> is the argument \<open>now\<close> of every handler that writes it.
  A route parameter \<open>:id\<close> is the integer SQLite compares with the key column; an id that is
  no number compares equal to no row, as an integer absent from the table does.
  Failures of the database connection itself (the \<open>err\<close> branches) are outside the model.
\<close>

record organiser =
  organiser_id :: int
  name :: jsstring
  description :: jsstring

record settings =
  setting_id :: "int option"
  site_name :: jsstring
  site_description :: jsstring

record event =
  event_id :: int
  title :: jsstring
  description :: "jsstring option"
  event_date :: "jsstring option"
  full_price_tickets :: sqlval
  full_price_cost :: sqlval
  concession_tickets :: sqlval
  concession_cost :: sqlval
  status :: jsstring
  organiser_id :: "int option"
  created_date :: jsstring
  published_date :: "jsstring option"
  last_modified :: jsstring

record booking =
  booking_id :: int
  event_id :: int
  attendee_name :: jsstring
  full_price_tickets_booked :: sqlval
  concession_tickets_booked :: sqlval
  total_cost :: sqlval
  booking_date :: jsstring

record store =
  organisers :: "organiser list"
  site_settings :: "settings list"
  events :: "event list"
  bookings :: "booking list"
  event_seq :: int
  booking_seq :: int

text \<open>An event row joined with the totals of its bookings (\<open>e.*, full_booked, concession_booked\<close>).\<close>

record event_totals =
  ev :: event
  full_booked :: jsnum
  concession_booked :: jsnum

text \<open>The \<open>booking\<close> object of the confirmation page.\<close>

record booking_summary =
  attendee_name :: jsstring
  full_price_tickets_booked :: jsnum
  concession_tickets_booked :: jsnum
  total_cost :: jsnum

section \<open>Responses\<close>

datatype form_event =
    BlankEvent jsstring jsstring jsstring jsnum jsnum jsnum jsnum
  | EventRow event

datatype page =
    Attendee_home settings "event_totals list"
  | Attendee_event event_totals jsnum jsnum
  | Booking_confirmation event_totals booking_summary
  | Organiser_login "string option" "(int \<times> jsstring) list"
  | Organiser_home "organiser option" settings "(event_totals \<times> jsstring option) list"
      "(event \<times> jsstring option) list" "string option"
  | Site_settings settings
  | Edit_event form_event

text \<open>
  \<open>Failure\<close> is a request that ends in Express's error handler: an exception thrown by the
  handler, or a constraint of the schema that refuses the statement.
\<close>

datatype response =
    Redirect string
  | Send nat string
  | Render page
  | Failure string

section \<open>Queries\<close>

text \<open>
  The order of \<open>ORDER BY\<close> on a text column: the bytes of the UTF-8 text, which is the order
  of the code points. On code units, the surrogates are moved above the rest of the plane.
  \<open>NULL\<close> comes first; rows with equal keys stay in rowid order.
\<close>

definition collation_key :: "jsstring \<Rightarrow> nat list" where
  "collation_key t =
     map (\<lambda>u. if 55296 \<le> u \<and> u \<le> 57343 then u + 8192
               else if 57344 \<le> u then u - 2048 else u) t"

definition order_by_asc :: "('a \<Rightarrow> jsstring option) \<Rightarrow> 'a list \<Rightarrow> 'a list" where
  "order_by_asc col rows = sort_key (\<lambda>r. map_option collation_key (col r)) rows"

definition order_by_desc :: "('a \<Rightarrow> jsstring option) \<Rightarrow> 'a list \<Rightarrow> 'a list" where
  "order_by_desc col rows = rev (sort_key (\<lambda>r. map_option collation_key (col r)) (rev rows))"

text \<open>\<open>SELECT * FROM site_settings LIMIT 1\<close>\<close>

definition settings_query :: "store \<Rightarrow> settings option" where
  "settings_query s = (case site_settings s of [] \<Rightarrow> None | r # _ \<Rightarrow> Some r)"

text \<open>\<open>COALESCE(SUM(b.full_price_tickets_booked), 0)\<close> over the bookings joined to an event.\<close>

definition full_booked_of :: "store \<Rightarrow> int \<Rightarrow> jsnum" where
  "full_booked_of s eid =
     coalesce_sum (map booking.full_price_tickets_booked
       (filter (\<lambda>b. booking.event_id b = eid) (bookings s)))"

definition concession_booked_of :: "store \<Rightarrow> int \<Rightarrow> jsnum" where
  "concession_booked_of s eid =
     coalesce_sum (map booking.concession_tickets_booked
       (filter (\<lambda>b. booking.event_id b = eid) (bookings s)))"

definition with_totals :: "store \<Rightarrow> event \<Rightarrow> event_totals" where
  "with_totals s e =
     \<lparr>ev = e, full_booked = full_booked_of s (event.event_id e),
      concession_booked = concession_booked_of s (event.event_id e)\<rparr>"

text \<open>
  The query of the detail page and of the booking handler:
  \<open>WHERE e.event_id = ? AND e.status = 'published' GROUP BY e.event_id\<close>, read with \<open>db.get\<close>.
\<close>

definition published_event_query :: "store \<Rightarrow> int \<Rightarrow> event_totals option" where
  "published_event_query s eid =
     map_option (with_totals s)
       (find (\<lambda>e. event.event_id e = eid \<and> status e = ascii ''published'') (events s))"


section \<open>Attendee routes\<close>



text \<open>
  \<open>POST /attendee/book/:id\<close>, with the three fields of its body. An \<open>attendee_name\<close> that is an
  array or an object is truthy and has no \<open>trim\<close>: the handler throws.
\<close>

record book_body =
  body_attendee_name :: jsval
  body_full_price_tickets :: jsval
  body_concession_tickets :: jsval

definition book :: "jsstring \<Rightarrow> int \<Rightarrow> book_body \<Rightarrow> store \<Rightarrow> response \<times> store" where
  "book now eventId body s =
     (if \<not> truthy (body_attendee_name body)
      then (Send 400 ''Attendee name is required'', s)
      else
        (case call_trim (body_attendee_name body) of
           None \<Rightarrow> (Failure ''TypeError'', s)
         | Some trimmed \<Rightarrow>
             if trimmed = [] then (Send 400 ''Attendee name is required'', s)
             else
               let fullWanted = parseInt_or_0 (body_full_price_tickets body);
                   concessionWanted = parseInt_or_0 (body_concession_tickets body)
               in
                 if jsadd fullWanted concessionWanted = Fin 0
                 then (Send 400 ''Please select at least one ticket'', s)
                 else
                   (case published_event_query s eventId of
                      None \<Rightarrow> (Send 404 ''Event not found'', s)
                    | Some e \<Rightarrow>
                        let fullAvailable =
                              jssub (ToNumber (full_price_tickets (ev e))) (full_booked e);
                            concessionAvailable =
                              jssub (ToNumber (concession_tickets (ev e))) (concession_booked e)
                        in
                          if jsgt fullWanted fullAvailable
                             \<or> jsgt concessionWanted concessionAvailable
                          then (Send 400 ''Not enough tickets available'', s)
                          else
                            let totalCost =
                                  jsadd (jsmul fullWanted (ToNumber (full_price_cost (ev e))))
                                        (jsmul concessionWanted (ToNumber (concession_cost (ev e))))
                            in (Render (Booking_confirmation e
                                  \<lparr>booking_summary.attendee_name = trimmed,
                                   full_price_tickets_booked = fullWanted,
                                   concession_tickets_booked = concessionWanted,
                                   total_cost = totalCost\<rparr>),
                                s\<lparr>bookings := bookings s @
                                     [\<lparr>booking_id = booking_seq s + 1,
                                       event_id = eventId,
                                       attendee_name = trimmed,
                                       full_price_tickets_booked = number_column fullWanted,
                                       concession_tickets_booked = number_column concessionWanted,
                                       total_cost = number_column totalCost,
                                       booking_date = now\<rparr>],
                                  booking_seq := booking_seq s + 1\<rparr>))))"

section \<open>Organiser routes\<close>

subsection \<open>Configuration, session and date helpers\<close>

text \<open>The two environment variables \<open>ORGANISER_PASSWORDS\<close> is built from; an unset one is \<open>undefined\<close>.\<close>

record config =
  ORGANISER_PASSWORD_1 :: jsval
  ORGANISER_PASSWORD_2 :: jsval

text \<open>
  \<open>ORGANISER_PASSWORDS[organiser_id]\<close>: the key is the string of the field, and the object has
  the own keys \<open>1\<close> and \<open>2\<close>. (The names it inherits from \<open>Object.prototype\<close> are no numbers,
  so no organiser row is found for them and the lookup is never reached with one.)
\<close>

definition ORGANISER_PASSWORDS :: "config \<Rightarrow> jsval \<Rightarrow> jsval" where
  "ORGANISER_PASSWORDS env key =
     (if ToString key = ascii ''1'' then ORGANISER_PASSWORD_1 env
      else if ToString key = ascii ''2'' then ORGANISER_PASSWORD_2 env
      else Undefined)"

record session =
  isAuthenticated :: bool
  organiserId :: "int option"
  organiserName :: "jsstring option"

text \<open>
  The text the database driver binds for a field: a string is bound as it is; what is bound
  for an array or an object is the driver's business, the parameter \<open>obj_text\<close>.
\<close>

definition bind_text :: "(jsval \<Rightarrow> jsstring) \<Rightarrow> jsval \<Rightarrow> jsstring" where
  "bind_text obj_text v = (case v of Str t \<Rightarrow> t | _ \<Rightarrow> obj_text v)"

text \<open>\<open>s.includes(c)\<close> and \<open>s.replace(a, b)\<close> with one-character strings; \<open>replace\<close> changes the first occurrence only.\<close>

definition js_includes :: "jsstring \<Rightarrow> nat \<Rightarrow> bool" where
  "js_includes s c = (c \<in> set s)"

fun replace_first :: "nat \<Rightarrow> nat \<Rightarrow> jsstring \<Rightarrow> jsstring" where
  "replace_first a b [] = []"
| "replace_first a b (c # cs) = (if c = a then b # cs else c # replace_first a b cs)"

text \<open>
  \<open>formatDateForDatabase\<close>. On an array, \<open>includes\<close> looks for an element and \<open>length\<close> counts
  the elements, and there is no \<open>replace\<close>; an object has no \<open>includes\<close>. \<open>None\<close> is the
  exception thrown there.
\<close>

definition formatDateForDatabase :: "jsval \<Rightarrow> jsval option" where
  "formatDateForDatabase dateString =
     (if \<not> truthy dateString then Some dateString
      else
        (case dateString of
           Str d \<Rightarrow>
             if js_includes d 32 \<and> length d = 19 then Some dateString
             else if js_includes d 84 then Some (Str (replace_first 84 32 d @ ascii '':00''))
             else Some dateString
         | Arr vs \<Rightarrow>
             if Str [32] \<in> set vs \<and> length vs = 19 then Some dateString
             else if Str [84] \<in> set vs then None
             else Some dateString
         | _ \<Rightarrow> None))"

definition formatDateForInput :: "jsstring \<Rightarrow> jsstring" where
  "formatDateForInput dateString =
     (if dateString = [] then []
      else if js_includes dateString 84 \<and> length dateString = 16 then dateString
      else if js_includes dateString 32 then replace_first 32 84 (take 16 dateString)
      else dateString)"

text \<open>
  The condition of \<open>requireAuth\<close>:
  \<open>req.session && req.session.isAuthenticated && req.session.organiserId\<close>.
\<close>

definition authenticated :: "session option \<Rightarrow> bool" where
  "authenticated sess =
     (case sess of
        None \<Rightarrow> False
      | Some x \<Rightarrow> isAuthenticated x \<and> (case organiserId x of None \<Rightarrow> False | Some i \<Rightarrow> i \<noteq> 0))"

text \<open>\<open>requireAuth\<close> in front of a handler \<open>next\<close>: the handler runs, or the login page is the answer.\<close>

definition requireAuth ::
  "session option \<Rightarrow> store \<Rightarrow> (session \<Rightarrow> store \<Rightarrow> response \<times> store) \<Rightarrow> response \<times> store" where
  "requireAuth sess s next =
     (case sess of
        None \<Rightarrow> (Redirect ''/organiser/login'', s)
      | Some x \<Rightarrow>
          if authenticated sess then next x s else (Redirect ''/organiser/login'', s))"

subsection \<open>Login and logout\<close>

text \<open>\<open>SELECT organiser_id, name FROM organisers ORDER BY name\<close>\<close>

definition organisers_by_name :: "store \<Rightarrow> (int \<times> jsstring) list" where
  "organisers_by_name s =
     map (\<lambda>ogr. (organiser.organiser_id ogr, name ogr))
       (order_by_asc (\<lambda>ogr. Some (name ogr)) (organisers s))"

text \<open>\<open>GET /organiser/login\<close>\<close>

definition get_login :: "session option \<Rightarrow> store \<Rightarrow> response" where
  "get_login sess s =
     (if (case sess of None \<Rightarrow> False | Some x \<Rightarrow> isAuthenticated x)
      then Redirect ''/organiser''
      else Render (Organiser_login None (organisers_by_name s)))"

text \<open>
  \<open>SELECT * FROM organisers WHERE organiser_id = ?\<close> with the submitted field bound: \<open>undefined\<close>
  is bound as \<open>NULL\<close> and equals no key; a text is compared as the integer SQLite's column
  affinity makes of it, the parameter \<open>id_of_text\<close> (\<open>None\<close> for a text that equals no integer;
  \<open>sqlite_id\<close> above is its model).
\<close>

definition organiser_query ::
  "(jsstring \<Rightarrow> int option) \<Rightarrow> (jsval \<Rightarrow> jsstring) \<Rightarrow> store \<Rightarrow> jsval \<Rightarrow> organiser option" where
  "organiser_query id_of_text obj_text s organiser_id_field =
     (if organiser_id_field = Undefined then None
      else
        (case id_of_text (bind_text obj_text organiser_id_field) of
           None \<Rightarrow> None
         | Some i \<Rightarrow> find (\<lambda>ogr. organiser.organiser_id ogr = i) (organisers s)))"

text \<open>
  \<open>POST /organiser/login\<close> with the fields \<open>password\<close> and \<open>organiser_id\<close> of its body. The
  expected password is \<open>undefined\<close> or a string, so \<open>===\<close> is the equality of the two values.
\<close>

definition post_login ::
  "config \<Rightarrow> (jsstring \<Rightarrow> int option) \<Rightarrow> (jsval \<Rightarrow> jsstring) \<Rightarrow> jsval \<Rightarrow> jsval
     \<Rightarrow> session option \<Rightarrow> store \<Rightarrow> response \<times> session option" where
  "post_login env id_of_text obj_text password organiser_id_field sess s =
     (case organiser_query id_of_text obj_text s organiser_id_field of
        None \<Rightarrow> (Render (Organiser_login (Some ''Invalid organiser selected.'') []), sess)
      | Some ogr \<Rightarrow>
          let expectedPassword = ORGANISER_PASSWORDS env organiser_id_field in
          if password = expectedPassword
          then
            (case sess of
               None \<Rightarrow> (Failure ''TypeError'', None)
             | Some x \<Rightarrow>
                 (Redirect ''/organiser'',
                  Some (x\<lparr>isAuthenticated := True,
                          organiserId := Some (organiser.organiser_id ogr),
                          organiserName := Some (name ogr)\<rparr>)))
          else
            (Render (Organiser_login (Some ''Incorrect password. Please try again.'')
               (organisers_by_name s)), sess))"

text \<open>\<open>POST /organiser/logout\<close>: the session is destroyed.\<close>

definition post_logout :: "session option \<Rightarrow> response \<times> session option" where
  "post_logout sess =
     (case sess of None \<Rightarrow> (Failure ''TypeError'', None) | Some x \<Rightarrow> (Redirect ''/'', None))"

subsection \<open>Dashboard and site settings\<close>

text \<open>\<open>LEFT JOIN organisers o ON e.organiser_id = o.organiser_id\<close>, column \<open>o.name\<close>.\<close>

definition organiser_name_of :: "store \<Rightarrow> event \<Rightarrow> jsstring option" where
  "organiser_name_of s e =
     (case event.organiser_id e of
        None \<Rightarrow> None
      | Some i \<Rightarrow> map_option name (find (\<lambda>ogr. organiser.organiser_id ogr = i) (organisers s)))"

text \<open>
  \<open>GET /organiser/\<close>: the organiser of the session, the settings, the published events by
  \<open>event_date\<close> ascending and the drafts by \<open>created_date\<close> descending; \<open>updated\<close> tells whether
  the query string has a non-empty \<open>updated\<close>.
\<close>

definition organiser_home :: "bool \<Rightarrow> session \<Rightarrow> store \<Rightarrow> response \<times> store" where
  "organiser_home updated x s =
     (Render (Organiser_home
        (case organiserId x of
           None \<Rightarrow> None
         | Some i \<Rightarrow> find (\<lambda>ogr. organiser.organiser_id ogr = i) (organisers s))
        (case settings_query s of
           None \<Rightarrow> \<lparr>setting_id = None, site_name = ascii ''Event Manager'',
                     site_description = ascii ''Manage your events''\<rparr>
         | Some r \<Rightarrow> r)
        (map (\<lambda>e. (with_totals s e, organiser_name_of s e))
           (order_by_asc event_date (filter (\<lambda>e. status e = ascii ''published'') (events s))))
        (map (\<lambda>e. (e, organiser_name_of s e))
           (order_by_desc (\<lambda>e. Some (created_date e))
              (filter (\<lambda>e. status e = ascii ''draft'') (events s))))
        (if updated then Some ''Event updated successfully!'' else None)), s)"

text \<open>\<open>GET /organiser/settings\<close>\<close>

definition get_settings :: "session \<Rightarrow> store \<Rightarrow> response \<times> store" where
  "get_settings x s =
     (Render (Site_settings
        (case settings_query s of
           None \<Rightarrow> \<lparr>setting_id = None, site_name = [], site_description = []\<rparr>
         | Some r \<Rightarrow> r)), s)"

text \<open>
  \<open>POST /organiser/settings\<close>: \<open>INSERT OR REPLACE\<close> of the row with key 1, which takes its place
  in rowid order.
\<close>

definition post_settings ::
  "(jsval \<Rightarrow> jsstring) \<Rightarrow> jsval \<Rightarrow> jsval \<Rightarrow> session \<Rightarrow> store \<Rightarrow> response \<times> store" where
  "post_settings obj_text site_name_field site_description_field x s =
     (if \<not> truthy site_name_field \<or> \<not> truthy site_description_field
      then (Send 400 ''All fields are required'', s)
      else
        (Redirect ''/organiser'',
         s\<lparr>site_settings :=
             insort_key setting_id
               \<lparr>setting_id = Some 1, site_name = bind_text obj_text site_name_field,
                site_description = bind_text obj_text site_description_field\<rparr>
               (filter (\<lambda>r. setting_id r \<noteq> Some 1) (site_settings s))\<rparr>))"

subsection \<open>Creating and editing events\<close>

text \<open>The body of the event form, every field as submitted.\<close>

record event_body =
  form_title :: jsval
  form_description :: jsval
  form_event_date :: jsval
  form_full_price_tickets :: jsval
  form_full_price_cost :: jsval
  form_concession_tickets :: jsval
  form_concession_cost :: jsval

text \<open>
  \<open>field || 0\<close> bound to an \<open>INTEGER\<close> or \<open>REAL\<close> column: the number 0 for a missing or empty
  field, otherwise what the affinity of the column makes of the submitted text.
\<close>

definition column_or_0 :: "(jsval \<Rightarrow> jsstring) \<Rightarrow> jsval \<Rightarrow> sqlval" where
  "column_or_0 obj_text v =
     (if truthy v then numeric_affinity (bind_text obj_text v) else SNumber (Fin 0))"

text \<open>\<open>GET /organiser/create-event\<close>\<close>

definition get_create_event :: "session \<Rightarrow> store \<Rightarrow> response \<times> store" where
  "get_create_event x s =
     (Render (Edit_event (BlankEvent [] [] [] (Fin 0) (Fin 0) (Fin 0) (Fin 0))), s)"

text \<open>
  \<open>POST /organiser/create-event\<close>: the new row is a draft of the session's organiser; the
  foreign key of \<open>organiser_id\<close> refuses an organiser that is no row.
\<close>

definition post_create_event ::
  "(jsval \<Rightarrow> jsstring) \<Rightarrow> jsstring \<Rightarrow> event_body \<Rightarrow> session \<Rightarrow> store \<Rightarrow> response \<times> store" where
  "post_create_event obj_text now body x s =
     (if \<not> truthy (form_title body) \<or> \<not> truthy (form_description body)
         \<or> \<not> truthy (form_event_date body)
      then (Send 400 ''Title, description, and event date are required'', s)
      else
        (case formatDateForDatabase (form_event_date body) of
           None \<Rightarrow> (Failure ''TypeError'', s)
         | Some formattedDate \<Rightarrow>
             if (case organiserId x of
                   None \<Rightarrow> False
                 | Some i \<Rightarrow> find (\<lambda>ogr. organiser.organiser_id ogr = i) (organisers s) = None)
             then (Failure ''FOREIGN KEY constraint failed'', s)
             else
               (Redirect ''/organiser'',
                s\<lparr>events := events s @
                     [\<lparr>event.event_id = event_seq s + 1,
                       title = bind_text obj_text (form_title body),
                       description = Some (bind_text obj_text (form_description body)),
                       event_date = Some (bind_text obj_text formattedDate),
                       full_price_tickets = column_or_0 obj_text (form_full_price_tickets body),
                       full_price_cost = column_or_0 obj_text (form_full_price_cost body),
                       concession_tickets = column_or_0 obj_text (form_concession_tickets body),
                       concession_cost = column_or_0 obj_text (form_concession_cost body),
                       status = ascii ''draft'',
                       organiser_id = organiserId x,
                       created_date = now,
                       published_date = None,
                       last_modified = now\<rparr>],
                  event_seq := event_seq s + 1\<rparr>)))"

text \<open>\<open>GET /organiser/edit-event/:id\<close>\<close>

definition get_edit_event :: "int \<Rightarrow> session \<Rightarrow> store \<Rightarrow> response \<times> store" where
  "get_edit_event eventId x s =
     (case find (\<lambda>e. event.event_id e = eventId) (events s) of
        None \<Rightarrow> (Send 404 ''Event not found'', s)
      | Some e \<Rightarrow>
          (Render (Edit_event (EventRow
             (case event_date e of
                None \<Rightarrow> e
              | Some d \<Rightarrow> if d = [] then e else e\<lparr>event_date := Some (formatDateForInput d)\<rparr>))), s))"

text \<open>\<open>POST /organiser/edit-event/:id\<close>: an \<open>UPDATE ... WHERE event_id = ?\<close>.\<close>

definition post_edit_event ::
  "(jsval \<Rightarrow> jsstring) \<Rightarrow> jsstring \<Rightarrow> int \<Rightarrow> event_body \<Rightarrow> session \<Rightarrow> store
     \<Rightarrow> response \<times> store" where
  "post_edit_event obj_text now eventId body x s =
     (if \<not> truthy (form_title body) \<or> \<not> truthy (form_description body)
         \<or> \<not> truthy (form_event_date body)
      then (Send 400 ''Title, description, and event date are required'', s)
      else
        (case formatDateForDatabase (form_event_date body) of
           None \<Rightarrow> (Failure ''TypeError'', s)
         | Some formattedDate \<Rightarrow>
             (Redirect ''/organiser?updated=true'',
              s\<lparr>events :=
                  map (\<lambda>e. if event.event_id e = eventId
                            then e\<lparr>title := bind_text obj_text (form_title body),
                                   description := Some (bind_text obj_text (form_description body)),
                                   event_date := Some (bind_text obj_text formattedDate),
                                   full_price_tickets :=
                                     column_or_0 obj_text (form_full_price_tickets body),
                                   full_price_cost :=
                                     column_or_0 obj_text (form_full_price_cost body),
                                   concession_tickets :=
                                     column_or_0 obj_text (form_concession_tickets body),
                                   concession_cost :=
                                     column_or_0 obj_text (form_concession_cost body),
                                   last_modified := now\<rparr>
                            else e)
                    (events s)\<rparr>)))"

subsection \<open>Publishing and deleting events\<close>

text \<open>
  \<open>POST /organiser/publish-event/:id\<close>:
  \<open>UPDATE events SET status = 'published', published_date = CURRENT_TIMESTAMP
    WHERE event_id = ? AND status = 'draft'\<close>.
\<close>

definition post_publish_event :: "jsstring \<Rightarrow> int \<Rightarrow> session \<Rightarrow> store \<Rightarrow> response \<times> store" where
  "post_publish_event now eventId x s =
     (Redirect ''/organiser'',
      s\<lparr>events :=
          map (\<lambda>e. if event.event_id e = eventId \<and> status e = ascii ''draft''
                    then e\<lparr>status := ascii ''published'', published_date := Some now\<rparr>
                    else e)
            (events s)\<rparr>)"

text \<open>
  \<open>POST /organiser/delete-event/:id\<close>: \<open>DELETE FROM events WHERE event_id = ?\<close>. Foreign keys
  are switched on, so with a deleted event row go the bookings that reference it
  (\<open>ON DELETE CASCADE\<close>); where no event row is deleted, nothing is.
\<close>

definition post_delete_event :: "int \<Rightarrow> session \<Rightarrow> store \<Rightarrow> response \<times> store" where
  "post_delete_event eventId x s =
     (Redirect ''/organiser'',
      (case find (\<lambda>e. event.event_id e = eventId) (events s) of
         None \<Rightarrow> s
       | Some d \<Rightarrow>
           s\<lparr>events := filter (\<lambda>e. event.event_id e \<noteq> eventId) (events s),
             bookings := filter (\<lambda>b. booking.event_id b \<noteq> eventId) (bookings s)\<rparr>))"

subsection \<open>The router\<close>

datatype organiser_request =
    GET_login
  | POST_login jsval jsval
  | POST_logout
  | GET_home bool
  | GET_settings
  | POST_settings jsval jsval
  | GET_create_event
  | POST_create_event event_body
  | GET_edit_event int
  | POST_edit_event int event_body
  | POST_publish_event int
  | POST_delete_event int

text \<open>
  The routes of \<open>organiser.js\<close> as they are registered: login and logout without the gate,
  every other route with \<open>requireAuth\<close> in front. The result is the response, the session
  after the request and the store after it.
\<close>

definition gated ::
  "session option \<Rightarrow> store \<Rightarrow> (session \<Rightarrow> store \<Rightarrow> response \<times> store)
     \<Rightarrow> response \<times> session option \<times> store" where
  "gated sess s next = (case requireAuth sess s next of (r, s') \<Rightarrow> (r, sess, s'))"

fun organiser_router ::
  "config \<Rightarrow> (jsstring \<Rightarrow> int option) \<Rightarrow> (jsval \<Rightarrow> jsstring) \<Rightarrow> jsstring \<Rightarrow> organiser_request
     \<Rightarrow> session option \<Rightarrow> store \<Rightarrow> response \<times> session option \<times> store" where
  "organiser_router env idt ot now GET_login sess s = (get_login sess s, sess, s)"
| "organiser_router env idt ot now (POST_login password organiser_id_field) sess s =
     (case post_login env idt ot password organiser_id_field sess s of (r, sess') \<Rightarrow> (r, sess', s))"
| "organiser_router env idt ot now POST_logout sess s =
     (case post_logout sess of (r, sess') \<Rightarrow> (r, sess', s))"
| "organiser_router env idt ot now (GET_home updated) sess s = gated sess s (organiser_home updated)"
| "organiser_router env idt ot now GET_settings sess s = gated sess s get_settings"
| "organiser_router env idt ot now (POST_settings n d) sess s = gated sess s (post_settings ot n d)"
| "organiser_router env idt ot now GET_create_event sess s = gated sess s get_create_event"
| "organiser_router env idt ot now (POST_create_event body) sess s =
     gated sess s (post_create_event ot now body)"
| "organiser_router env idt ot now (GET_edit_event eventId) sess s =
     gated sess s (get_edit_event eventId)"
| "organiser_router env idt ot now (POST_edit_event eventId body) sess s =
     gated sess s (post_edit_event ot now eventId body)"
| "organiser_router env idt ot now (POST_publish_event eventId) sess s =
     gated sess s (post_publish_event now eventId)"
| "organiser_router env idt ot now (POST_delete_event eventId) sess s =
     gated sess s (post_delete_event eventId)"

text \<open>
  The organiser-privileged operations, all but login and logout, each with the handler that
  does its work.
\<close>

fun privileged_handler ::
  "(jsval \<Rightarrow> jsstring) \<Rightarrow> jsstring \<Rightarrow> organiser_request
     \<Rightarrow> (session \<Rightarrow> store \<Rightarrow> response \<times> store) option" where
  "privileged_handler ot now GET_login = None"
| "privileged_handler ot now (POST_login password organiser_id_field) = None"
| "privileged_handler ot now POST_logout = None"
| "privileged_handler ot now (GET_home updated) = Some (organiser_home updated)"
| "privileged_handler ot now GET_settings = Some get_settings"
| "privileged_handler ot now (POST_settings n d) = Some (post_settings ot n d)"
| "privileged_handler ot now GET_create_event = Some get_create_event"
| "privileged_handler ot now (POST_create_event body) = Some (post_create_event ot now body)"
| "privileged_handler ot now (GET_edit_event eventId) = Some (get_edit_event eventId)"
| "privileged_handler ot now (POST_edit_event eventId body) =
     Some (post_edit_event ot now eventId body)"
| "privileged_handler ot now (POST_publish_event eventId) = Some (post_publish_event now eventId)"
| "privileged_handler ot now (POST_delete_event eventId) = Some (post_delete_event eventId)"

fun privileged :: "organiser_request \<Rightarrow> bool" where
  "privileged GET_login = False"
| "privileged (POST_login password organiser_id_field) = False"
| "privileged POST_logout = False"
| "privileged req = True"

section \<open>Sessions and stores that can arise\<close>

text \<open>The session express-session gives a visitor who has none.\<close>

definition fresh_session :: session where
  "fresh_session = \<lparr>isAuthenticated = False, organiserId = None, organiserName = None\<rparr>"

text \<open>
  What a visitor's session and the store can be: at the start, the visitor has a fresh
  session and the keys of the organisers table are the positive integers \<open>AUTOINCREMENT\<close>
  gave them; then the visitor sends requests to the organiser routes, anyone books, any
  other visitor (with a session of his own) sends requests, and the visitor may come back
  with a fresh session.
\<close>

inductive reachable ::
  "config \<Rightarrow> (jsstring \<Rightarrow> int option) \<Rightarrow> (jsval \<Rightarrow> jsstring) \<Rightarrow> session option \<Rightarrow> store \<Rightarrow> bool"
  for env :: config and idt :: "jsstring \<Rightarrow> int option" and ot :: "jsval \<Rightarrow> jsstring" where
  start:
    "list_all (\<lambda>ogr. 0 < organiser.organiser_id ogr) (organisers s)
     \<Longrightarrow> reachable env idt ot (Some fresh_session) s"
| request:
    "reachable env idt ot sess s
     \<Longrightarrow> organiser_router env idt ot now req sess s = (r, sess', s')
     \<Longrightarrow> reachable env idt ot sess' s'"
| booking:
    "reachable env idt ot sess s
     \<Longrightarrow> book now eventId body s = (r, s')
     \<Longrightarrow> reachable env idt ot sess s'"
| other_visitor:
    "reachable env idt ot sess s
     \<Longrightarrow> organiser_router env idt ot now req other s = (r, other', s')
     \<Longrightarrow> reachable env idt ot sess s'"
| new_session:
    "reachable env idt ot sess s
     \<Longrightarrow> reachable env idt ot (Some fresh_session) s"

section \<open>Derived notions the properties are stated with\<close>

text \<open>
  The total cost the booking handler computes, the booking object it shows and the row its
  \<open>INSERT\<close> adds for an accepted request.
\<close>

definition total_cost_of :: "book_body \<Rightarrow> event_totals \<Rightarrow> jsnum" where
  "total_cost_of body e =
     jsadd (jsmul (parseInt_or_0 (body_full_price_tickets body)) (ToNumber (full_price_cost (ev e))))
           (jsmul (parseInt_or_0 (body_concession_tickets body)) (ToNumber (concession_cost (ev e))))"

definition confirmed_booking :: "jsstring \<Rightarrow> book_body \<Rightarrow> event_totals \<Rightarrow> booking_summary" where
  "confirmed_booking trimmed body e =
     \<lparr>booking_summary.attendee_name = trimmed,
      full_price_tickets_booked = parseInt_or_0 (body_full_price_tickets body),
      concession_tickets_booked = parseInt_or_0 (body_concession_tickets body),
      total_cost = total_cost_of body e\<rparr>"

definition new_booking ::
  "jsstring \<Rightarrow> int \<Rightarrow> jsstring \<Rightarrow> book_body \<Rightarrow> store \<Rightarrow> event_totals \<Rightarrow> booking" where
  "new_booking now eventId trimmed body s e =
     \<lparr>booking_id = booking_seq s + 1,
      event_id = eventId,
      attendee_name = trimmed,
      full_price_tickets_booked = number_column (parseInt_or_0 (body_full_price_tickets body)),
      concession_tickets_booked = number_column (parseInt_or_0 (body_concession_tickets body)),
      total_cost = number_column (total_cost_of body e),
      booking_date = now\<rparr>"


text \<open>No published event has the id: the id is missing, or its event has another status.\<close>

definition no_published_event :: "store \<Rightarrow> int \<Rightarrow> bool" where
  "no_published_event s eventId =
     (find (\<lambda>e. event.event_id e = eventId \<and> status e = ascii ''published'') (events s) = None)"

text \<open>The session has \<open>isAuthenticated == true\<close>.\<close>

definition has_isAuthenticated :: "session option \<Rightarrow> bool" where
  "has_isAuthenticated sess = (case sess of None \<Rightarrow> False | Some x \<Rightarrow> isAuthenticated x)"

section \<open>The database of \<open>db_schema.sql\<close>\<close>

text \<open>
  The rows the schema script inserts: two organisers, the settings row, three events (the
  second a draft) and two bookings. \<open>t0\<close> is the time the script ran.
\<close>

definition seed_store :: "jsstring \<Rightarrow> store" where
  "seed_store t0 =
     \<lparr>organisers =
        [\<lparr>organiser.organiser_id = 1, name = ascii ''Sarah Johnson'',
          description = ascii ''Lead Yoga Instructor and Studio Manager''\<rparr>,
         \<lparr>organiser.organiser_id = 2, name = ascii ''Mike Chen'',
          description = ascii ''Assistant Instructor and Event Coordinator''\<rparr>],
      site_settings =
        [\<lparr>setting_id = Some 1, site_name = ascii ''Fun Yoga'',
          site_description = ascii ''All kinds of yoga for all ages''\<rparr>],
      events =
        [\<lparr>event.event_id = 1, title = ascii ''Yoga Kids Workshop'',
          description = Some (ascii ''Beginner friendly kids yoga session''),
          event_date = Some (ascii ''2025-07-15 10:00:00''),
          full_price_tickets = SNumber (Fin 20), full_price_cost = SNumber (Fin 25),
          concession_tickets = SNumber (Fin 10), concession_cost = SNumber (Fin 15),
          status = ascii ''published'', organiser_id = Some 1,
          created_date = t0, published_date = Some t0, last_modified = t0\<rparr>,
         \<lparr>event.event_id = 2, title = ascii ''Yoga Adults Workshop'',
          description = Some (ascii ''Beginner friendly adults yoga session''),
          event_date = Some (ascii ''2025-07-20 14:00:00''),
          full_price_tickets = SNumber (Fin 30), full_price_cost = SNumber (Fin 15),
          concession_tickets = SNumber (Fin 15), concession_cost = SNumber (Fin 10),
          status = ascii ''draft'', organiser_id = Some 2,
          created_date = t0, published_date = None, last_modified = t0\<rparr>,
         \<lparr>event.event_id = 3, title = ascii ''Puppy Yoga'',
          description = Some (ascii ''Yoga with cute puppies''),
          event_date = Some (ascii ''2025-07-10 09:00:00''),
          full_price_tickets = SNumber (Fin 15), full_price_cost = SNumber (Fin 40),
          concession_tickets = SNumber (Fin 5), concession_cost = SNumber (Fin 30),
          status = ascii ''published'', organiser_id = Some 1,
          created_date = t0, published_date = Some t0, last_modified = t0\<rparr>],
      bookings =
        [\<lparr>booking_id = 1, event_id = 1, attendee_name = ascii ''Alice Benson'',
          full_price_tickets_booked = SNumber (Fin 2),
          concession_tickets_booked = SNumber (Fin 1),
          total_cost = SNumber (Fin 65), booking_date = t0\<rparr>,
         \<lparr>booking_id = 2, event_id = 3, attendee_name = ascii ''Bob Carrey'',
          full_price_tickets_booked = SNumber (Fin 1),
          concession_tickets_booked = SNumber (Fin 0),
          total_cost = SNumber (Fin 40), booking_date = t0\<rparr>],
      event_seq = 3,
      booking_seq = 2\<rparr>"

text \<open>The time the script ran and the time of a later request, for the examples.\<close>

definition t0 :: jsstring where
  "t0 = ascii ''2025-07-01 08:00:00''"

definition t1 :: jsstring where
  "t1 = ascii ''2025-07-02 12:00:00''"

text \<open>The session \<open>POST /organiser/login\<close> establishes for the first organiser of the script.\<close>

definition sarah_session :: session where
  "sarah_session =
     \<lparr>isAuthenticated = True, organiserId = Some 1,
      organiserName = Some (ascii ''Sarah Johnson'')\<rparr>"

text \<open>The passwords the README gives the examiner, as the two environment variables.\<close>

definition readme_config :: config where
  "readme_config =
     \<lparr>ORGANISER_PASSWORD_1 = Str (ascii ''sarah_admin_2025''),
      ORGANISER_PASSWORD_2 = Str (ascii ''mike_coordinator_2025'')\<rparr>"

text \<open>A driver that binds the string of an array or object.\<close>

definition string_driver :: "jsval \<Rightarrow> jsstring" where
  "string_driver v = ToString v"

text \<open>The database of the script with a third organiser added, who has no password variable.\<close>

definition three_organisers :: store where
  "three_organisers =
     (seed_store t0)\<lparr>organisers := organisers (seed_store t0) @
        [\<lparr>organiser.organiser_id = 3, name = ascii ''Priya Patel'',
          description = ascii ''Guest Instructor''\<rparr>]\<rparr>"

text \<open>
  An event form whose number of full price tickets is no number, and the database after the
  first organiser has submitted it to \<open>POST /organiser/create-event\<close> and published the new
  event, which gets the id 4.
\<close>

definition text_capacity_form :: event_body where
  "text_capacity_form =
     \<lparr>form_title = Str (ascii ''Sunset Yoga''),
      form_description = Str (ascii ''Yoga on the beach''),
      form_event_date = Str (ascii ''2025-08-01T18:00''),
      form_full_price_tickets = Str (ascii ''abc''),
      form_full_price_cost = Str (ascii ''20''),
      form_concession_tickets = Str (ascii ''5''),
      form_concession_cost = Str (ascii ''12'')\<rparr>"

definition text_capacity_store :: store where
  "text_capacity_store =
     snd (snd (organiser_router readme_config sqlite_id string_driver t1 (POST_publish_event 4)
       (Some sarah_session)
       (snd (snd (organiser_router readme_config sqlite_id string_driver t1
          (POST_create_event text_capacity_form) (Some sarah_session) (seed_store t0))))))"

section \<open>Properties\<close>

subsection \<open>Evaluating strings and numbers\<close>

lemma ascii_eq_iff [simp]: "(ascii a = ascii b) = (a = b)"
proof -
  have "inj (of_char :: char \<Rightarrow> nat)" by (rule injI) simp
  then show ?thesis by (simp add: ascii_def inj_map_eq_map)
qed

lemma ascii_Nil [simp]: "ascii [] = []"
  by (simp add: ascii_def)

lemma ascii_is_Nil [simp]: "(ascii a = []) = (a = [])" "([] = ascii a) = (a = [])"
  by (auto simp: ascii_def)

lemma ascii_Cons: "ascii (c # cs) = of_char c # ascii cs"
  by (simp add: ascii_def)

lemma round_half_even_int: "round_half_even (of_int k) = k"
  by (simp add: round_half_even_def)

text \<open>An integer of less than 54 bits is a double.\<close>

lemma fl_of_int:
  assumes "\<bar>n\<bar> < 2 ^ 53"
  shows "fl (of_int n) = Fin (of_int n)"
proof (cases "n = 0")
  case True
  then show ?thesis by (simp add: fl_def)
next
  case False
  let ?x = "of_int n :: real"
  let ?e = "\<lfloor>log 2 \<bar>?x\<bar>\<rfloor>"
  have x1: "1 \<le> \<bar>?x\<bar>" using False by (simp add: abs_if)
  have x2: "\<bar>?x\<bar> < 2 ^ 53" using assms
    by (metis of_int_abs of_int_less_numeral_power_cancel_iff)
  have e0: "0 \<le> ?e" using x1 by simp
  have "log 2 \<bar>?x\<bar> < 53"
    using x1 x2 by (simp add: log_less_iff powr_realpow)
  then have e52: "?e \<le> 52" by linarith
  define k where "k = nat (52 - ?e)"
  have u: "(2::real) powr (of_int (max ?e (- 1022)) - 52) = 1 / 2 ^ k"
  proof -
    have "max ?e (- 1022) = ?e" using e0 by simp
    moreover have "of_int ?e - (52::real) = - real k" using e52 by (simp add: k_def)
    ultimately show ?thesis by (simp add: powr_minus powr_realpow divide_inverse)
  qed
  have q: "\<bar>?x\<bar> / (1 / 2 ^ k) = (of_int (\<bar>n\<bar> * 2 ^ k) :: real)" by simp
  have m: "of_int (round_half_even (\<bar>?x\<bar> / (1 / 2 ^ k))) * (1 / 2 ^ k) = \<bar>?x\<bar>"
    unfolding q round_half_even_int by simp
  have lt: "\<not> (2::real) ^ 1024 \<le> \<bar>?x\<bar>"
  proof -
    have "(2::real) ^ 53 \<le> 2 ^ 1024" by simp
    with x2 show ?thesis by linarith
  qed
  show ?thesis
    using False lt unfolding fl_def Let_def u m
    by (simp add: abs_if)
qed

lemma fl_numeral: "(numeral k :: int) < 2 ^ 53 \<Longrightarrow> fl (numeral k) = Fin (numeral k)"
  using fl_of_int[of "numeral k"] by simp

lemma fl_neg_numeral: "(numeral k :: int) < 2 ^ 53 \<Longrightarrow> fl (- numeral k) = Fin (- numeral k)"
  using fl_of_int[of "- numeral k"] by simp

lemma fl_0: "fl 0 = Fin 0"
  by (simp add: fl_def)

lemma fl_1: "fl 1 = Fin 1"
  using fl_of_int[of 1] by simp

lemma fl_minus_1: "fl (- 1) = Fin (- 1)"
  using fl_of_int[of "- 1"] by simp

text \<open>The definitions a concrete request is evaluated with.\<close>

lemmas fl_simps = fl_numeral fl_neg_numeral fl_0 fl_1 fl_minus_1

lemmas js_defs = truthy_def call_trim_def is_ws_def trim_def digit_of_def is_digit_def
  digits_value_def parseInt_def parseInt_or_0_def ascii_Cons jssub_def jssign_def Let_def

lemmas sql_defs = is_dec_def decimal_literal_def is_sqlite_space_def sqlite_numeric_def
  numeric_affinity_def sqlite_id_def number_column_def radix_literal_def StringToNumber_def
  ToNumber_def numbers_of_def finite_sum_def coalesce_sum_def

lemmas query_defs = settings_query_def full_booked_of_def concession_booked_of_def
  with_totals_def published_event_query_def no_published_event_def

subsection \<open>The booking handler\<close>

text \<open>A request is accepted exactly on the path through all its checks.\<close>

lemma book_Render:
  assumes "book now eventId body s = (Render pg, s')"
  shows "\<exists>e n. published_event_query s eventId = Some e
           \<and> body_attendee_name body = Str n
           \<and> trim n \<noteq> []
           \<and> jsadd (parseInt_or_0 (body_full_price_tickets body))
                    (parseInt_or_0 (body_concession_tickets body)) \<noteq> Fin 0
           \<and> \<not> jsgt (parseInt_or_0 (body_full_price_tickets body))
                      (jssub (ToNumber (full_price_tickets (ev e))) (full_booked e))
           \<and> \<not> jsgt (parseInt_or_0 (body_concession_tickets body))
                      (jssub (ToNumber (concession_tickets (ev e))) (concession_booked e))
           \<and> pg = Booking_confirmation e (confirmed_booking (trim n) body e)
           \<and> s' = s\<lparr>bookings := bookings s @ [new_booking now eventId (trim n) body s e],
                     booking_seq := booking_seq s + 1\<rparr>"
proof (cases "body_attendee_name body")
  case (Str n)
  with assms show ?thesis
    by (auto simp: book_def Let_def call_trim_def new_booking_def confirmed_booking_def
          total_cost_of_def split: if_splits option.splits)
qed (use assms in \<open>simp_all add: book_def call_trim_def truthy_def\<close>)

lemma book_accepts:
  assumes "published_event_query s eventId = Some e"
    and "body_attendee_name body = Str n"
    and "trim n \<noteq> []"
    and "jsadd (parseInt_or_0 (body_full_price_tickets body))
               (parseInt_or_0 (body_concession_tickets body)) \<noteq> Fin 0"
    and "\<not> jsgt (parseInt_or_0 (body_full_price_tickets body))
                 (jssub (ToNumber (full_price_tickets (ev e))) (full_booked e))"
    and "\<not> jsgt (parseInt_or_0 (body_concession_tickets body))
                 (jssub (ToNumber (concession_tickets (ev e))) (concession_booked e))"
  shows "book now eventId body s =
           (Render (Booking_confirmation e (confirmed_booking (trim n) body e)),
            s\<lparr>bookings := bookings s @ [new_booking now eventId (trim n) body s e],
              booking_seq := booking_seq s + 1\<rparr>)"
proof -
  from assms(3) have "n \<noteq> []" by (auto simp: trim_def)
  with assms show ?thesis
    by (simp add: book_def Let_def call_trim_def truthy_def new_booking_def confirmed_booking_def
          total_cost_of_def)
qed

lemma published_event_query_Some:
  "published_event_query s eid = Some r \<Longrightarrow>
     find (\<lambda>e. event.event_id e = eid \<and> status e = ascii ''published'') (events s) = Some (ev r)
     \<and> event.event_id (ev r) = eid \<and> status (ev r) = ascii ''published''
     \<and> full_booked r = full_booked_of s eid \<and> concession_booked r = concession_booked_of s eid"
  by (auto simp: published_event_query_def with_totals_def dest: find_Some_iff[THEN iffD1])

lemma jsgt_NaN [simp]: "jsgt x NaN = False"
  by (cases x) simp_all

lemma jssub_NaN [simp]: "jssub NaN y = NaN"
  by (simp add: jssub_def)

text \<open>
  C1. The claim is that after every accepted booking the availability of the booked event is
  non-negative for both ticket types, because a request that wants more than is available
  is rejected. The capacity is whatever the event form bound to the column. A capacity that
  is a text and no number reads as \<open>NaN\<close>; the availability is \<open>NaN\<close>, no count is greater
  than it, and the request is accepted whatever number of full price tickets it asks for (as
  long as its name, its sum and its concession count pass). The availability after the
  insert is \<open>NaN\<close> again, not a number at least 0.
\<close>

theorem text_capacity_never_rejects:
  assumes "published_event_query s eventId = Some e"
    and "ToNumber (full_price_tickets (ev e)) = NaN"
    and "body_attendee_name body = Str n"
    and "trim n \<noteq> []"
    and "jsadd (parseInt_or_0 (body_full_price_tickets body))
               (parseInt_or_0 (body_concession_tickets body)) \<noteq> Fin 0"
    and "\<not> jsgt (parseInt_or_0 (body_concession_tickets body))
                 (jssub (ToNumber (concession_tickets (ev e))) (concession_booked e))"
  shows "\<exists>pg row s'.
           book now eventId body s = (Render pg, s')
         \<and> s' = s\<lparr>bookings := bookings s @ [row], booking_seq := booking_seq s + 1\<rparr>
         \<and> booking.event_id row = eventId
         \<and> booking.full_price_tickets_booked row
             = number_column (parseInt_or_0 (body_full_price_tickets body))
         \<and> jssub (ToNumber (full_price_tickets (ev e))) (full_booked_of s' eventId) = NaN"
proof -
  let ?row = "new_booking now eventId (trim n) body s e"
  let ?s' = "s\<lparr>bookings := bookings s @ [?row], booking_seq := booking_seq s + 1\<rparr>"
  have "\<not> jsgt (parseInt_or_0 (body_full_price_tickets body))
              (jssub (ToNumber (full_price_tickets (ev e))) (full_booked e))"
    by (simp add: assms(2))
  from book_accepts[OF assms(1,3,4,5) this assms(6), of now]
  have "book now eventId body s =
          (Render (Booking_confirmation e (confirmed_booking (trim n) body e)), ?s')" .
  moreover have "booking.event_id ?row = eventId"
    by (simp add: new_booking_def)
  moreover have "booking.full_price_tickets_booked ?row
             = number_column (parseInt_or_0 (body_full_price_tickets body))"
    by (simp add: new_booking_def)
  moreover have "jssub (ToNumber (full_price_tickets (ev e))) (full_booked_of ?s' eventId) = NaN"
    by (simp add: assms(2))
  ultimately show ?thesis by blast
qed

text \<open>
  On the database of the schema script, after the first organiser has created and published
  an event whose number of full price tickets was submitted as \<open>abc\<close>: a booking of 1000 full
  price tickets for it is accepted.
\<close>

theorem text_capacity_never_rejects_witness:
  "full_price_tickets (events text_capacity_store ! 3) = SText (ascii ''abc'')
   \<and> (\<exists>pg row s'.
         book t1 4
           \<lparr>body_attendee_name = Str (ascii ''Al''),
            body_full_price_tickets = Str (ascii ''1000''),
            body_concession_tickets = Undefined\<rparr> text_capacity_store = (Render pg, s')
       \<and> s' = text_capacity_store\<lparr>bookings := bookings text_capacity_store @ [row],
                 booking_seq := booking_seq text_capacity_store + 1\<rparr>
       \<and> booking.event_id row = 4
       \<and> booking.full_price_tickets_booked row = SNumber (Fin 1000)
       \<and> jssub (ToNumber (full_price_tickets (events text_capacity_store ! 3)))
            (full_booked_of s' 4) = NaN)"
proof -
  let ?s = "text_capacity_store"
  let ?body = "\<lparr>body_attendee_name = Str (ascii ''Al''),
            body_full_price_tickets = Str (ascii ''1000''),
            body_concession_tickets = Undefined\<rparr>"
  note ev = text_capacity_store_def text_capacity_form_def seed_store_def gated_def
    requireAuth_def authenticated_def sarah_session_def post_create_event_def
    post_publish_event_def formatDateForDatabase_def js_includes_def column_or_0_def
    bind_text_def js_defs sql_defs fl_simps t0_def t1_def
  have es: "events ?s ! 3 = ev (with_totals ?s (events ?s ! 3))"
    by (simp add: with_totals_def)
  have q: "published_event_query ?s 4 = Some (with_totals ?s (events ?s ! 3))"
    by (simp add: query_defs ev)
  have c: "full_price_tickets (events ?s ! 3) = SText (ascii ''abc'')"
    by (simp add: ev)
  have cap: "ToNumber (full_price_tickets (ev (with_totals ?s (events ?s ! 3)))) = NaN"
    by (simp add: with_totals_def c) (simp add: js_defs sql_defs)
  have p: "parseInt_or_0 (Str (ascii ''1000'')) = Fin 1000" "parseInt_or_0 Undefined = Fin 0"
    by (simp_all add: js_defs fl_simps)
  have n: "body_attendee_name ?body = Str (ascii ''Al'')" "trim (ascii ''Al'') \<noteq> []"
    by (simp_all add: js_defs)
  have sum: "jsadd (parseInt_or_0 (body_full_price_tickets ?body))
               (parseInt_or_0 (body_concession_tickets ?body)) \<noteq> Fin 0"
    by (simp add: p fl_simps)
  have conc: "\<not> jsgt (parseInt_or_0 (body_concession_tickets ?body))
                 (jssub (ToNumber (concession_tickets (ev (with_totals ?s (events ?s ! 3)))))
                    (concession_booked (with_totals ?s (events ?s ! 3))))"
    by (simp add: p) (simp add: query_defs ev)
  from text_capacity_never_rejects[OF q cap n sum conc, of t1]
  show ?thesis
    by (simp add: p number_column_def c es[symmetric])
qed

text \<open>
  C2. The claim is that the ticket counts are parsed as non-negative integers, so that no
  negative count reaches the availability check or the insert. \<open>parseInt\<close> reads a sign: a
  request with a negative count for one type passes every check as soon as the two counts do
  not add up to 0 and the other count is available, and the row it inserts has the negative
  count.
\<close>

theorem negative_ticket_count_booked:
  assumes "published_event_query s eventId = Some e"
    and "body_attendee_name body = Str n"
    and "trim n \<noteq> []"
    and "jsgt (Fin 0) (parseInt_or_0 (body_full_price_tickets body))"
    and "jsadd (parseInt_or_0 (body_full_price_tickets body))
               (parseInt_or_0 (body_concession_tickets body)) \<noteq> Fin 0"
    and "\<not> jsgt (parseInt_or_0 (body_full_price_tickets body))
                 (jssub (ToNumber (full_price_tickets (ev e))) (full_booked e))"
    and "\<not> jsgt (parseInt_or_0 (body_concession_tickets body))
                 (jssub (ToNumber (concession_tickets (ev e))) (concession_booked e))"
  shows "\<exists>pg row w. book now eventId body s =
             (Render pg, s\<lparr>bookings := bookings s @ [row], booking_seq := booking_seq s + 1\<rparr>)
           \<and> booking.full_price_tickets_booked row = SNumber w
           \<and> w = parseInt_or_0 (body_full_price_tickets body)
           \<and> jsgt (Fin 0) w"
proof -
  from assms(4) have "parseInt_or_0 (body_full_price_tickets body) \<noteq> NaN" by auto
  then have "booking.full_price_tickets_booked (new_booking now eventId (trim n) body s e)
               = SNumber (parseInt_or_0 (body_full_price_tickets body))"
    by (simp add: new_booking_def number_column_def)
  with book_accepts[OF assms(1,2,3,5,6,7), of now] assms(4) show ?thesis by blast
qed

text \<open>
  On the database of the schema script: \<open>-5\<close> full price and \<open>4\<close> concession tickets for
  Puppy Yoga are booked.
\<close>

theorem negative_ticket_count_booked_witness:
  "parseInt_or_0 (Str (ascii ''-5'')) = Fin (- 5)
   \<and> (\<exists>pg row. book t1 3
         \<lparr>body_attendee_name = Str (ascii ''Al''), body_full_price_tickets = Str (ascii ''-5''),
          body_concession_tickets = Str (ascii ''4'')\<rparr> (seed_store t0)
        = (Render pg, (seed_store t0)
             \<lparr>bookings := bookings (seed_store t0) @ [row],
               booking_seq := booking_seq (seed_store t0) + 1\<rparr>)
      \<and> booking.full_price_tickets_booked row = SNumber (Fin (- 5)))"
proof -
  let ?s = "seed_store t0"
  let ?body = "\<lparr>body_attendee_name = Str (ascii ''Al''), body_full_price_tickets = Str (ascii ''-5''),
          body_concession_tickets = Str (ascii ''4'')\<rparr>"
  have p: "parseInt_or_0 (Str (ascii ''-5'')) = Fin (- 5)" "parseInt_or_0 (Str (ascii ''4'')) = Fin 4"
    by (simp_all add: js_defs fl_simps)
  have q: "published_event_query ?s 3 = Some (with_totals ?s (events ?s ! 2))"
    by (simp add: seed_store_def query_defs)
  have a: "full_booked (with_totals ?s (events ?s ! 2)) = Fin 1"
       "concession_booked (with_totals ?s (events ?s ! 2)) = Fin 0"
       "full_price_tickets (ev (with_totals ?s (events ?s ! 2))) = SNumber (Fin 15)"
       "concession_tickets (ev (with_totals ?s (events ?s ! 2))) = SNumber (Fin 5)"
    by (simp_all add: seed_store_def query_defs sql_defs fl_simps)
  have n: "body_attendee_name ?body = Str (ascii ''Al'')" "trim (ascii ''Al'') \<noteq> []"
    by (simp_all add: js_defs)
  have "\<exists>pg row w. book t1 3 ?body ?s =
             (Render pg, ?s\<lparr>bookings := bookings ?s @ [row], booking_seq := booking_seq ?s + 1\<rparr>)
           \<and> booking.full_price_tickets_booked row = SNumber w
           \<and> w = parseInt_or_0 (body_full_price_tickets ?body)
           \<and> jsgt (Fin 0) w"
    by (rule negative_ticket_count_booked[OF q n])
       (simp_all add: p a ToNumber_def jssub_def fl_simps)
  then obtain pg row w where
    b: "book t1 3 ?body ?s =
             (Render pg, ?s\<lparr>bookings := bookings ?s @ [row], booking_seq := booking_seq ?s + 1\<rparr>)"
    and w: "booking.full_price_tickets_booked row = SNumber w"
    and w': "w = parseInt_or_0 (body_full_price_tickets ?body)"
    by blast
  from w w' have "booking.full_price_tickets_booked row = SNumber (Fin (- 5))"
    by (simp add: p)
  with b p show ?thesis by blast
qed

subsection \<open>Events that are not published\<close>


text \<open>
  Under the primary key of the events table (no two rows share an id), the id of an event
  that is not published is the id of no published event.
\<close>

lemma draft_has_no_published:
  assumes "e \<in> set (events s)" and "status e \<noteq> ascii ''published''"
    and "distinct (map event.event_id (events s))"
  shows "no_published_event s (event.event_id e)"
proof -
  have "\<not> (\<exists>x\<in>set (events s). event.event_id x = event.event_id e \<and> status x = ascii ''published'')"
  proof
    assume "\<exists>x\<in>set (events s). event.event_id x = event.event_id e \<and> status x = ascii ''published''"
    then obtain x where x: "x \<in> set (events s)" "event.event_id x = event.event_id e"
        "status x = ascii ''published''"
      by blast
    from assms(3) x(1) assms(1) x(2) have "x = e"
      by (meson distinct_map inj_onD)
    with x(3) assms(2) show False by simp
  qed
  then show ?thesis
    by (simp add: no_published_event_def find_None_iff)
qed




subsection \<open>The name of the attendee\<close>

lemma is_ws_iff:
  "is_ws c \<longleftrightarrow>
     c \<in> {9, 10, 11, 12, 13, 32, 160, 5760, 8232, 8233, 8239, 8287, 12288, 65279} \<union> {8192..8202}"
  by (auto simp: is_ws_def)

lemma trim_decomp:
  "\<exists>pre post. n = pre @ trim n @ post \<and> list_all is_ws pre \<and> list_all is_ws post"
proof -
  let ?d = "dropWhile is_ws n"
  have 1: "n = takeWhile is_ws n @ ?d" by simp
  have "?d = rev (takeWhile is_ws (rev ?d) @ dropWhile is_ws (rev ?d))"
    by (simp only: takeWhile_dropWhile_id rev_rev_ident)
  then have 2: "?d = trim n @ rev (takeWhile is_ws (rev ?d))"
    by (simp only: rev_append trim_def)
  have 3: "list_all is_ws (takeWhile is_ws n)"
    by (simp add: list_all_iff) (meson set_takeWhileD)
  have 4: "list_all is_ws (rev (takeWhile is_ws (rev ?d)))"
    by (simp add: list_all_iff) (meson set_takeWhileD)
  from 1 2 have "n = takeWhile is_ws n @ trim n @ rev (takeWhile is_ws (rev ?d))" by simp
  with 3 4 show ?thesis by blast
qed

lemma trim_ends:
  assumes "trim n \<noteq> []"
  shows "\<not> is_ws (hd (trim n)) \<and> \<not> is_ws (last (trim n))"
proof -
  let ?d = "dropWhile is_ws n"
  let ?r = "dropWhile is_ws (rev ?d)"
  from assms have r: "?r \<noteq> []" by (simp add: trim_def)
  have d: "?d \<noteq> []"
  proof
    assume e: "?d = []"
    have "?r = []" unfolding e by (simp only: rev.simps dropWhile.simps)
    with r show False by contradiction
  qed
  have "last (trim n) = hd ?r" by (simp only: trim_def last_rev)
  moreover have "\<not> is_ws (hd ?r)" using r by (rule hd_dropWhile)
  moreover have "hd (trim n) = last ?r" by (simp only: trim_def hd_rev)
  moreover have "last ?r = last (rev ?d)"
    using r by (metis append_is_Nil_conv last_appendR takeWhile_dropWhile_id)
  moreover have "last (rev ?d) = hd ?d" by (simp only: last_rev)
  moreover have "\<not> is_ws (hd ?d)" using d by (rule hd_dropWhile)
  ultimately show ?thesis by simp
qed

text \<open>
  C9. For every accepted booking the submitted name is a string, and both the row inserted
  and the booking shown on the confirmation page carry that string trimmed: what is left
  when a run of white space is taken off each end, non-empty, with no white space first or
  last. White space is what JavaScript's \<open>trim\<close> strips: tab, line feed, vertical tab, form
  feed, carriage return, space, U+00A0, U+1680, U+2000 to U+200A, U+2028, U+2029, U+202F,
  U+205F, U+3000 and U+FEFF.
\<close>

theorem booking_name_trimmed:
  assumes "book now eventId body s = (Render pg, s')"
  shows "\<exists>n e c row t pre post.
           body_attendee_name body = Str n
         \<and> pg = Booking_confirmation e c
         \<and> bookings s' = bookings s @ [row]
         \<and> booking.attendee_name row = t
         \<and> booking_summary.attendee_name c = t
         \<and> t = trim n
         \<and> n = pre @ t @ post
         \<and> set pre \<subseteq> {9, 10, 11, 12, 13, 32, 160, 5760, 8232, 8233, 8239, 8287, 12288, 65279}
                       \<union> {8192..8202}
         \<and> set post \<subseteq> {9, 10, 11, 12, 13, 32, 160, 5760, 8232, 8233, 8239, 8287, 12288, 65279}
                        \<union> {8192..8202}
         \<and> t \<noteq> []
         \<and> hd t \<notin> {9, 10, 11, 12, 13, 32, 160, 5760, 8232, 8233, 8239, 8287, 12288, 65279}
                     \<union> {8192..8202}
         \<and> last t \<notin> {9, 10, 11, 12, 13, 32, 160, 5760, 8232, 8233, 8239, 8287, 12288, 65279}
                       \<union> {8192..8202}"
proof -
  let ?W = "{9, 10, 11, 12, 13, 32, 160, 5760, 8232, 8233, 8239, 8287, 12288, 65279}
              \<union> {8192..8202::nat}"
  from book_Render[OF assms] obtain e n where
    n: "body_attendee_name body = Str n"
    and ne: "trim n \<noteq> []"
    and pg: "pg = Booking_confirmation e (confirmed_booking (trim n) body e)"
    and s': "s' = s\<lparr>bookings := bookings s @ [new_booking now eventId (trim n) body s e],
                     booking_seq := booking_seq s + 1\<rparr>"
    by blast
  from trim_decomp[of n] obtain pre post where
    d: "n = pre @ trim n @ post" and "list_all is_ws pre" and "list_all is_ws post"
    by blast
  then have w: "set pre \<subseteq> ?W" "set post \<subseteq> ?W"
    by (auto simp: list_all_iff is_ws_iff)
  from trim_ends[OF ne] have h: "hd (trim n) \<notin> ?W" "last (trim n) \<notin> ?W"
    by (simp_all only: is_ws_iff not_False_eq_True)
  have "bookings s' = bookings s @ [new_booking now eventId (trim n) body s e]"
    by (simp add: s')
  moreover have "booking.attendee_name (new_booking now eventId (trim n) body s e) = trim n"
    by (simp add: new_booking_def)
  moreover have "booking_summary.attendee_name (confirmed_booking (trim n) body e) = trim n"
    by (simp add: confirmed_booking_def)
  ultimately show ?thesis
    using n pg ne d w h by blast
qed

text \<open>
  A name submitted with a U+00A0 on each side, booked on the database of the schema script:
  the row and the confirmation have \<open>Zoe\<close>.
\<close>

theorem booking_name_trimmed_witness:
  "\<exists>pg s' e c row.
       book t1 1
         \<lparr>body_attendee_name = Str ([160] @ ascii ''Zoe'' @ [160]),
          body_full_price_tickets = Str (ascii ''2''),
          body_concession_tickets = Str (ascii ''1'')\<rparr> (seed_store t0) = (Render pg, s')
     \<and> pg = Booking_confirmation e c
     \<and> bookings s' = bookings (seed_store t0) @ [row]
     \<and> booking.attendee_name row = ascii ''Zoe''
     \<and> booking_summary.attendee_name c = ascii ''Zoe''"
proof -
  let ?body = "\<lparr>body_attendee_name = Str ([160] @ ascii ''Zoe'' @ [160]),
          body_full_price_tickets = Str (ascii ''2''),
          body_concession_tickets = Str (ascii ''1'')\<rparr>"
  let ?b = "book t1 1 ?body (seed_store t0)"
  obtain pg s' where b: "?b = (Render pg, s')"
    by (simp add: book_def seed_store_def js_defs sql_defs query_defs fl_simps)
  have t: "trim ([160] @ ascii ''Zoe'' @ [160]) = ascii ''Zoe''"
    by (simp add: js_defs)
  from booking_name_trimmed[OF b] obtain n e c row t where
    n: "body_attendee_name ?body = Str n"
    and pg: "pg = Booking_confirmation e c"
    and bs: "bookings s' = bookings (seed_store t0) @ [row]"
    and r: "booking.attendee_name row = t"
    and c: "booking_summary.attendee_name c = t"
    and tn: "t = trim n"
    by blast
  from n have "n = [160] @ ascii ''Zoe'' @ [160]" by simp
  with r c t tn have "booking.attendee_name row = ascii ''Zoe''"
      "booking_summary.attendee_name c = ascii ''Zoe''"
    by simp_all
  with b pg bs show ?thesis by blast
qed

subsection \<open>The gate\<close>

lemma gated_authenticated:
  "authenticated (Some x) \<Longrightarrow> gated (Some x) s next = (fst (next x s), Some x, snd (next x s))"
  by (simp add: gated_def requireAuth_def split: prod.splits)

lemma gated_rejected:
  "\<not> authenticated sess \<Longrightarrow> gated sess s next = (Redirect ''/organiser/login'', sess, s)"
  by (cases sess) (simp_all add: gated_def requireAuth_def)

lemma authenticated_Some:
  "authenticated sess \<Longrightarrow> \<exists>x. sess = Some x"
  by (cases sess) (simp_all add: authenticated_def)

lemma authenticated_iff:
  "authenticated sess =
     (\<exists>x. sess = Some x \<and> isAuthenticated x \<and> (\<exists>i. organiserId x = Some i \<and> i \<noteq> 0))"
  by (auto simp: authenticated_def split: option.splits)

lemma sarah_authenticated: "authenticated (Some sarah_session)"
  by (simp add: authenticated_def sarah_session_def)

subsection \<open>Publishing\<close>

text \<open>
  C4. For an authenticated organiser, publishing answers with the redirect to the dashboard
  and changes nothing but event rows: a row with the given id and status \<open>draft\<close> gets status
  \<open>published\<close> and the current time as its (non-null) \<open>published_date\<close>, every other row stays
  as it is, and when no row with that id is a draft (the event is published already, or
  missing) the whole store is unchanged, so no \<open>published_date\<close> is overwritten.
\<close>

theorem publish_event_effect:
  assumes "authenticated sess"
    and "organiser_router env idt ot now (POST_publish_event eventId) sess s = (r, sess', s')"
  shows "r = Redirect ''/organiser'' \<and> sess' = sess
       \<and> s' = s\<lparr>events := events s'\<rparr>
       \<and> length (events s') = length (events s)
       \<and> (\<forall>i < length (events s).
            (event.event_id (events s ! i) = eventId \<and> status (events s ! i) = ascii ''draft''
               \<longrightarrow> events s' ! i
                     = (events s ! i)\<lparr>status := ascii ''published'', published_date := Some now\<rparr>
                 \<and> status (events s' ! i) = ascii ''published''
                 \<and> published_date (events s' ! i) \<noteq> None)
          \<and> (\<not> (event.event_id (events s ! i) = eventId \<and> status (events s ! i) = ascii ''draft'')
               \<longrightarrow> events s' ! i = events s ! i))
       \<and> (find (\<lambda>e. event.event_id e = eventId \<and> status e = ascii ''draft'') (events s) = None
            \<longrightarrow> s' = s)"
proof -
  from authenticated_Some[OF assms(1)] obtain x where x: "sess = Some x" by blast
  let ?f = "\<lambda>e. if event.event_id e = eventId \<and> status e = ascii ''draft''
                    then e\<lparr>status := ascii ''published'', published_date := Some now\<rparr> else e"
  from assms x have r: "r = Redirect ''/organiser''" and se: "sess' = sess"
    and s': "s' = s\<lparr>events := map ?f (events s)\<rparr>"
    by (simp_all add: gated_authenticated post_publish_event_def)
  have noop: "s' = s"
    if "find (\<lambda>e. event.event_id e = eventId \<and> status e = ascii ''draft'') (events s) = None"
  proof -
    from that have "\<forall>e\<in>set (events s). ?f e = e"
      by (auto simp: find_None_iff)
    then have "map ?f (events s) = events s"
      by (simp add: map_idI)
    then show ?thesis by (simp add: s')
  qed
  show ?thesis
    using r se noop by (simp add: s')
qed

text \<open>
  On the database of the schema script: publishing the draft, event 2, and publishing
  event 1, which is published already.
\<close>

theorem publish_event_effect_witness:
  "authenticated (Some sarah_session)
   \<and> (\<exists>s'. organiser_router readme_config sqlite_id string_driver t1 (POST_publish_event 2)
             (Some sarah_session) (seed_store t0)
           = (Redirect ''/organiser'', Some sarah_session, s')
         \<and> status (events s' ! 1) = ascii ''published''
         \<and> published_date (events s' ! 1) = Some t1
         \<and> events s' ! 0 = events (seed_store t0) ! 0)
   \<and> organiser_router readme_config sqlite_id string_driver t1 (POST_publish_event 1)
             (Some sarah_session) (seed_store t0)
           = (Redirect ''/organiser'', Some sarah_session, seed_store t0)"
proof -
  let ?s = "seed_store t0"
  obtain r sess' s' where p2:
    "organiser_router readme_config sqlite_id string_driver t1 (POST_publish_event 2)
       (Some sarah_session) ?s = (r, sess', s')"
    by (metis prod_cases3)
  obtain r1 sess1 s1 where p1:
    "organiser_router readme_config sqlite_id string_driver t1 (POST_publish_event 1)
       (Some sarah_session) ?s = (r1, sess1, s1)"
    by (metis prod_cases3)
  note e2 = publish_event_effect[OF sarah_authenticated p2]
  note e1 = publish_event_effect[OF sarah_authenticated p1]
  have len: "(1::nat) < length (events ?s)" "(0::nat) < length (events ?s)"
    by (simp_all add: seed_store_def)
  have d: "event.event_id (events ?s ! 1) = 2 \<and> status (events ?s ! 1) = ascii ''draft''"
    by (simp add: seed_store_def)
  have nd: "\<not> (event.event_id (events ?s ! 0) = 2 \<and> status (events ?s ! 0) = ascii ''draft'')"
    by (simp add: seed_store_def)
  have none: "find (\<lambda>e. event.event_id e = 1 \<and> status e = ascii ''draft'') (events ?s) = None"
    by (simp add: seed_store_def)
  from e2 len(1) d
  have "events s' ! 1 = (events ?s ! 1)\<lparr>status := ascii ''published'', published_date := Some t1\<rparr>"
    by blast
  then have a: "status (events s' ! 1) = ascii ''published''" "published_date (events s' ! 1) = Some t1"
    by simp_all
  from e2 len(2) nd have b: "events s' ! 0 = events ?s ! 0" by blast
  from e2 have c: "r = Redirect ''/organiser''" "sess' = Some sarah_session" by simp_all
  from e1 none have f: "r1 = Redirect ''/organiser''" "sess1 = Some sarah_session" "s1 = ?s"
    by simp_all
  show ?thesis
    using sarah_authenticated p2 p1 a b c f by blast
qed

subsection \<open>Deleting\<close>

text \<open>
  C5. For an authenticated organiser, deleting an existing event, whatever its status,
  leaves no event row with that id and no booking that references it, and keeps every
  other event and every booking of another event, in their order; nothing else of the
  store changes.
\<close>

theorem delete_event_effect:
  assumes "authenticated sess"
    and "find (\<lambda>e. event.event_id e = eventId) (events s) = Some d"
    and "organiser_router env idt ot now (POST_delete_event eventId) sess s = (r, sess', s')"
  shows "r = Redirect ''/organiser'' \<and> sess' = sess
       \<and> s' = s\<lparr>events := events s', bookings := bookings s'\<rparr>
       \<and> find (\<lambda>e. event.event_id e = eventId) (events s') = None
       \<and> filter (\<lambda>b. booking.event_id b = eventId) (bookings s') = []
       \<and> (\<forall>j. j \<noteq> eventId \<longrightarrow>
             filter (\<lambda>e. event.event_id e = j) (events s')
               = filter (\<lambda>e. event.event_id e = j) (events s)
           \<and> filter (\<lambda>b. booking.event_id b = j) (bookings s')
               = filter (\<lambda>b. booking.event_id b = j) (bookings s))
       \<and> events s' = filter (\<lambda>e. event.event_id e \<noteq> eventId) (events s)
       \<and> bookings s' = filter (\<lambda>b. booking.event_id b \<noteq> eventId) (bookings s)"
proof -
  from authenticated_Some[OF assms(1)] obtain x where x: "sess = Some x" by blast
  from assms x have r: "r = Redirect ''/organiser''" and se: "sess' = sess"
    and s': "s' = s\<lparr>events := filter (\<lambda>e. event.event_id e \<noteq> eventId) (events s),
                     bookings := filter (\<lambda>b. booking.event_id b \<noteq> eventId) (bookings s)\<rparr>"
    by (simp_all add: gated_authenticated post_delete_event_def)
  have 1: "find (\<lambda>e. event.event_id e = eventId) (events s') = None"
    by (simp add: s' find_None_iff)
  have 2: "filter (\<lambda>b. booking.event_id b = eventId) (bookings s') = []"
    by (simp add: s' filter_empty_conv)
  have 3: "filter (\<lambda>e. event.event_id e = j) (events s')
             = filter (\<lambda>e. event.event_id e = j) (events s)"
    if "j \<noteq> eventId" for j
    using that by (auto simp: s' intro: filter_cong)
  have 4: "filter (\<lambda>b. booking.event_id b = j) (bookings s')
             = filter (\<lambda>b. booking.event_id b = j) (bookings s)"
    if "j \<noteq> eventId" for j
    using that by (auto simp: s' intro: filter_cong)
  show ?thesis
    using r se 1 2 3 4 by (simp add: s')
qed

text \<open>On the database of the schema script: deleting Puppy Yoga, event 3, with its booking.\<close>

theorem delete_event_effect_witness:
  "authenticated (Some sarah_session)
   \<and> (\<exists>s'. organiser_router readme_config sqlite_id string_driver t1 (POST_delete_event 3)
             (Some sarah_session) (seed_store t0)
           = (Redirect ''/organiser'', Some sarah_session, s')
         \<and> map event.event_id (events s') = [1, 2]
         \<and> map booking.attendee_name (bookings s') = [ascii ''Alice Benson''])"
proof -
  let ?s = "seed_store t0"
  obtain r sess' s' where p:
    "organiser_router readme_config sqlite_id string_driver t1 (POST_delete_event 3)
       (Some sarah_session) ?s = (r, sess', s')"
    by (metis prod_cases3)
  have f: "find (\<lambda>e. event.event_id e = 3) (events ?s) = Some (events ?s ! 2)"
    by (simp add: seed_store_def)
  note e = delete_event_effect[OF sarah_authenticated f p]
  from e have "events s' = filter (\<lambda>e. event.event_id e \<noteq> 3) (events ?s)"
    and "bookings s' = filter (\<lambda>b. booking.event_id b \<noteq> 3) (bookings ?s)"
    by blast+
  then have "map event.event_id (events s') = [1, 2]"
    and "map booking.attendee_name (bookings s') = [ascii ''Alice Benson'']"
    by (simp_all add: seed_store_def)
  moreover from e have "r = Redirect ''/organiser''" "sess' = Some sarah_session" by simp_all
  ultimately show ?thesis using sarah_authenticated p by simp
qed

subsection \<open>Editing\<close>

text \<open>
  C6. The claim is that editing an event that does not exist is answered 404 by both
  routes. The form route does so. The update route has no such check: for an authenticated
  organiser and a form whose three required fields are there (and whose date can be
  formatted), the \<open>UPDATE\<close> matches no row, the store is unchanged, and the answer is the
  redirect that makes the dashboard report a successful update.
\<close>

theorem edit_missing_event:
  assumes "authenticated sess"
    and "find (\<lambda>e. event.event_id e = eventId) (events s) = None"
    and "truthy (form_title body)" and "truthy (form_description body)"
    and "truthy (form_event_date body)"
    and "formatDateForDatabase (form_event_date body) = Some formattedDate"
  shows "organiser_router env idt ot now (GET_edit_event eventId) sess s
           = (Send 404 ''Event not found'', sess, s)
       \<and> organiser_router env idt ot now (POST_edit_event eventId body) sess s
           = (Redirect ''/organiser?updated=true'', sess, s)"
proof -
  from authenticated_Some[OF assms(1)] obtain x where x: "sess = Some x" by blast
  from assms(2) have "\<forall>e\<in>set (events s). event.event_id e \<noteq> eventId"
    by (simp add: find_None_iff)
  then have m: "map (\<lambda>e. if event.event_id e = eventId then f e else e) (events s) = events s" for f
    by (simp add: map_idI)
  have "post_edit_event ot now eventId body x s = (Redirect ''/organiser?updated=true'', s)"
    using assms(3,4,5,6) by (simp add: post_edit_event_def m)
  moreover have "get_edit_event eventId x s = (Send 404 ''Event not found'', s)"
    using assms(2) by (simp add: get_edit_event_def)
  ultimately show ?thesis
    using assms(1) by (simp add: x gated_authenticated)
qed

text \<open>On the database of the schema script, which has no event 99.\<close>

theorem edit_missing_event_witness:
  "organiser_router readme_config sqlite_id string_driver t1 (GET_edit_event 99)
       (Some sarah_session) (seed_store t0)
     = (Send 404 ''Event not found'', Some sarah_session, seed_store t0)
   \<and> organiser_router readme_config sqlite_id string_driver t1
       (POST_edit_event 99
          \<lparr>form_title = Str (ascii ''Sunrise Yoga''),
           form_description = Str (ascii ''Early session''),
           form_event_date = Str (ascii ''2025-08-01T06:00''),
           form_full_price_tickets = Str (ascii ''10''),
           form_full_price_cost = Str (ascii ''20''),
           form_concession_tickets = Str (ascii ''5''),
           form_concession_cost = Str (ascii ''12'')\<rparr>)
       (Some sarah_session) (seed_store t0)
     = (Redirect ''/organiser?updated=true'', Some sarah_session, seed_store t0)"
  by (rule edit_missing_event[OF sarah_authenticated,
        where formattedDate = "Str (ascii ''2025-08-01 06:00:00'')"])
     (simp_all add: seed_store_def truthy_def formatDateForDatabase_def js_includes_def ascii_Cons)

subsection \<open>Site settings\<close>




subsection \<open>The gate in front of the privileged routes\<close>

text \<open>A privileged route is the gate in front of its handler, and no handler answers with the login redirect.\<close>

lemma privileged_route:
  assumes "privileged req"
  shows "\<exists>h. privileged_handler ot now req = Some h
           \<and> organiser_router env idt ot now req sess s = gated sess s h"
  using assms by (cases req) simp_all

lemma handlers_never_login_redirect:
  assumes "privileged_handler ot now req = Some h"
  shows "fst (h x s) \<noteq> Redirect ''/organiser/login''"
  using assms
  by (cases req)
     (auto simp: organiser_home_def get_settings_def post_settings_def get_create_event_def
        post_create_event_def get_edit_event_def post_edit_event_def post_publish_event_def
        post_delete_event_def Let_def split: option.splits if_splits)

text \<open>No handler writes the organisers table.\<close>

lemma handler_keeps_organisers:
  assumes "privileged_handler ot now req = Some h"
  shows "organisers (snd (h x s)) = organisers s"
  using assms
  by (cases req)
     (auto simp: organiser_home_def get_settings_def post_settings_def get_create_event_def
        post_create_event_def get_edit_event_def post_edit_event_def post_publish_event_def
        post_delete_event_def Let_def split: option.splits if_splits)

lemma book_keeps_organisers: "organisers (snd (book now eventId body s)) = organisers s"
  by (simp add: book_def Let_def split: option.splits)

lemma router_keeps_organisers:
  assumes "organiser_router env idt ot now req sess s = (r, sess', s')"
  shows "organisers s' = organisers s"
proof (cases "privileged req")
  case True
  from privileged_route[OF True, of ot now env idt sess s] obtain h where
    h: "privileged_handler ot now req = Some h"
    and g: "organiser_router env idt ot now req sess s = gated sess s h"
    by blast
  show ?thesis
  proof (cases "authenticated sess")
    case True
    then obtain x where "sess = Some x" using authenticated_Some by blast
    with True g assms handler_keeps_organisers[OF h, of x s] show ?thesis
      by (simp add: gated_authenticated)
  next
    case False
    with g assms show ?thesis by (simp add: gated_rejected)
  qed
next
  case False
  with assms show ?thesis
    by (cases req) (auto split: prod.splits)
qed

text \<open>
  Login is the only writer of the session: it sets \<open>isAuthenticated\<close> together with the key
  of an organiser row.
\<close>

lemma login_session:
  assumes "post_login env idt ot password organiser_id_field sess s = (r, sess')"
  shows "sess' = sess \<or> sess' = None
       \<or> (\<exists>x ogr. ogr \<in> set (organisers s)
             \<and> sess' = Some (x\<lparr>isAuthenticated := True,
                                 organiserId := Some (organiser.organiser_id ogr),
                                 organiserName := Some (name ogr)\<rparr>))"
proof (cases "organiser_query idt ot s organiser_id_field")
  case None
  with assms show ?thesis by (simp add: post_login_def)
next
  case (Some ogr)
  then have "ogr \<in> set (organisers s)"
    by (auto simp: organiser_query_def find_Some_iff split: if_splits option.splits)
  with Some assms show ?thesis
    by (cases sess) (auto simp: post_login_def Let_def split: if_splits)
qed

text \<open>
  In every session that can arise, \<open>isAuthenticated\<close> comes with an organiser id that is
  neither null nor 0.
\<close>

lemma reachable_invariant:
  assumes "reachable env idt ot sess s"
  shows "list_all (\<lambda>ogr. 0 < organiser.organiser_id ogr) (organisers s)
       \<and> (has_isAuthenticated sess \<longrightarrow> authenticated sess)"
  using assms
proof (induction rule: reachable.induct)
  case (start s)
  then show ?case by (simp add: has_isAuthenticated_def fresh_session_def)
next
  case (request sess s now req r sess' s')
  from router_keeps_organisers[OF request.hyps(2)] request.IH
  have o: "list_all (\<lambda>ogr. 0 < organiser.organiser_id ogr) (organisers s')" by simp
  have "has_isAuthenticated sess' \<longrightarrow> authenticated sess'"
  proof (cases req)
    case GET_login
    with request show ?thesis by simp
  next
    case (POST_login password organiser_id_field)
    with request.hyps(2) obtain r0 where
      "post_login env idt ot password organiser_id_field sess s = (r0, sess')"
      by (auto split: prod.splits)
    from login_session[OF this] request.IH show ?thesis
      by (auto simp: has_isAuthenticated_def authenticated_def list_all_iff)
  next
    case POST_logout
    with request.hyps(2) have "sess' = None"
      by (auto simp: post_logout_def split: option.splits)
    then show ?thesis by (simp add: has_isAuthenticated_def)
  qed (use request in \<open>auto simp: gated_def split: prod.splits\<close>)
  with o show ?case by simp
next
  case (booking sess s now eventId body r s')
  from booking.hyps(2) book_keeps_organisers[of now eventId body s]
  have "organisers s' = organisers s" by simp
  with booking.IH show ?case by simp
next
  case (other_visitor sess s now req other r other' s')
  from router_keeps_organisers[OF other_visitor.hyps(2)] other_visitor.IH
  show ?case by simp
next
  case (new_session sess s)
  then show ?case by (simp add: has_isAuthenticated_def fresh_session_def)
qed

text \<open>
  C8. For every session that can arise and every privileged route (dashboard, settings,
  creating, editing, publishing and deleting events): a request whose session has
  \<open>isAuthenticated\<close> set is admitted, that is, the answer and the new store are those of the
  route's handler run for that session, and the answer is not the redirect to the login
  page; a request whose session has not is answered with the redirect to the login page,
  and session and store stay as they are.
\<close>

theorem requireAuth_gate:
  assumes "reachable env idt ot sess s" and "privileged req"
  shows "\<exists>h. privileged_handler ot now req = Some h
       \<and> (has_isAuthenticated sess \<longrightarrow>
            (\<exists>x. sess = Some x
               \<and> organiser_router env idt ot now req sess s = (fst (h x s), sess, snd (h x s))
               \<and> fst (h x s) \<noteq> Redirect ''/organiser/login''))
       \<and> (\<not> has_isAuthenticated sess \<longrightarrow>
            organiser_router env idt ot now req sess s = (Redirect ''/organiser/login'', sess, s))"
proof -
  from privileged_route[OF assms(2), of ot now env idt sess s] obtain h where
    h: "privileged_handler ot now req = Some h"
    and g: "organiser_router env idt ot now req sess s = gated sess s h"
    by blast
  have adm: "\<exists>x. sess = Some x
               \<and> organiser_router env idt ot now req sess s = (fst (h x s), sess, snd (h x s))
               \<and> fst (h x s) \<noteq> Redirect ''/organiser/login''"
    if "has_isAuthenticated sess"
  proof -
    from that reachable_invariant[OF assms(1)] have a: "authenticated sess" by simp
    then obtain x where x: "sess = Some x" using authenticated_Some by blast
    from a x g have "organiser_router env idt ot now req sess s = (fst (h x s), sess, snd (h x s))"
      by (simp add: gated_authenticated)
    with x handlers_never_login_redirect[OF h, of x s] show ?thesis by simp
  qed
  have rej: "organiser_router env idt ot now req sess s = (Redirect ''/organiser/login'', sess, s)"
    if "\<not> has_isAuthenticated sess"
  proof -
    from that have "\<not> authenticated sess"
      by (auto simp: has_isAuthenticated_def authenticated_def split: option.splits)
    with g show ?thesis by (simp add: gated_rejected)
  qed
  from h adm rej show ?thesis by blast
qed

text \<open>
  On the database of the schema script: the settings form for a visitor who has not logged
  in, and for the first organiser after her login with the password of the README.
\<close>

theorem requireAuth_gate_witness:
  "organiser_router readme_config sqlite_id string_driver t1
       (POST_login (Str (ascii ''sarah_admin_2025'')) (Str (ascii ''1'')))
       (Some fresh_session) (seed_store t0)
     = (Redirect ''/organiser'', Some sarah_session, seed_store t0)
   \<and> reachable readme_config sqlite_id string_driver (Some sarah_session) (seed_store t0)
   \<and> organiser_router readme_config sqlite_id string_driver t1 GET_settings
        (Some sarah_session) (seed_store t0)
       = (Render (Site_settings
            \<lparr>setting_id = Some 1, site_name = ascii ''Fun Yoga'',
             site_description = ascii ''All kinds of yoga for all ages''\<rparr>),
          Some sarah_session, seed_store t0)
   \<and> reachable readme_config sqlite_id string_driver (Some fresh_session) (seed_store t0)
   \<and> organiser_router readme_config sqlite_id string_driver t1 GET_settings
        (Some fresh_session) (seed_store t0)
       = (Redirect ''/organiser/login'', Some fresh_session, seed_store t0)"
proof -
  let ?s = "seed_store t0"
  have f: "reachable readme_config sqlite_id string_driver (Some fresh_session) ?s"
    by (rule reachable.start) (simp add: seed_store_def)
  have l: "organiser_router readme_config sqlite_id string_driver t1
       (POST_login (Str (ascii ''sarah_admin_2025'')) (Str (ascii ''1'')))
       (Some fresh_session) ?s
     = (Redirect ''/organiser'', Some sarah_session, ?s)"
    by (simp add: post_login_def organiser_query_def bind_text_def ORGANISER_PASSWORDS_def
          readme_config_def fresh_session_def sarah_session_def seed_store_def js_defs sql_defs
          fl_simps)
  have r: "reachable readme_config sqlite_id string_driver (Some sarah_session) ?s"
    by (rule reachable.request[OF f l])
  have p: "privileged GET_settings" by simp
  have a: "has_isAuthenticated (Some sarah_session)"
    by (simp add: has_isAuthenticated_def sarah_session_def)
  have n: "\<not> has_isAuthenticated (Some fresh_session)"
    by (simp add: has_isAuthenticated_def fresh_session_def)
  have h: "privileged_handler string_driver t1 GET_settings = Some get_settings" by simp
  from requireAuth_gate[OF r p, of t1] a h
  have "organiser_router readme_config sqlite_id string_driver t1 GET_settings (Some sarah_session) ?s
          = (fst (get_settings sarah_session ?s), Some sarah_session, snd (get_settings sarah_session ?s))"
    by auto
  then have 1: "organiser_router readme_config sqlite_id string_driver t1 GET_settings
        (Some sarah_session) ?s
       = (Render (Site_settings
            \<lparr>setting_id = Some 1, site_name = ascii ''Fun Yoga'',
             site_description = ascii ''All kinds of yoga for all ages''\<rparr>),
          Some sarah_session, ?s)"
    by (simp add: get_settings_def settings_query_def) (simp add: seed_store_def)
  from requireAuth_gate[OF f p, of t1] n
  have 2: "organiser_router readme_config sqlite_id string_driver t1 GET_settings
        (Some fresh_session) ?s
       = (Redirect ''/organiser/login'', Some fresh_session, ?s)"
    by blast
  from l r 1 f 2 show ?thesis by simp
qed

subsection \<open>Login\<close>

text \<open>A submitted password string that differs from the expected one is refused.\<close>

lemma login_wrong_password:
  assumes "organiser_query idt ot s organiser_id_field = Some ogr"
    and "Str p \<noteq> ORGANISER_PASSWORDS env organiser_id_field"
  shows "post_login env idt ot (Str p) organiser_id_field sess s =
           (Render (Organiser_login (Some ''Incorrect password. Please try again.'')
              (organisers_by_name s)), sess)"
  using assms by (simp add: post_login_def Let_def)

text \<open>
  C10. The claim is that an organiser whose id has no entry in \<open>ORGANISER_PASSWORDS\<close> can
  never log in. Every submitted password string is indeed refused. But a request that
  leaves the password field out submits \<open>undefined\<close>, which is strictly equal to the absent
  expected password: the session is authenticated as that organiser.
\<close>

theorem login_without_password:
  assumes "organiser_query idt ot s organiser_id_field = Some ogr"
    and "ToString organiser_id_field \<noteq> ascii ''1''"
    and "ToString organiser_id_field \<noteq> ascii ''2''"
  shows "post_login env idt ot Undefined organiser_id_field (Some x) s =
           (Redirect ''/organiser'',
            Some (x\<lparr>isAuthenticated := True,
                    organiserId := Some (organiser.organiser_id ogr),
                    organiserName := Some (name ogr)\<rparr>))
       \<and> post_login env idt ot (Str p) organiser_id_field (Some x) s =
           (Render (Organiser_login (Some ''Incorrect password. Please try again.'')
              (organisers_by_name s)), Some x)"
  using assms by (simp add: post_login_def Let_def ORGANISER_PASSWORDS_def)

text \<open>A third organiser, and a login request for her whose body has no password field.\<close>

theorem login_without_password_witness:
  "organiser_router readme_config sqlite_id string_driver t1
       (POST_login Undefined (Str (ascii ''3''))) (Some fresh_session) three_organisers
     = (Redirect ''/organiser'',
        Some \<lparr>isAuthenticated = True, organiserId = Some 3,
              organiserName = Some (ascii ''Priya Patel'')\<rparr>,
        three_organisers)
   \<and> authenticated (Some \<lparr>isAuthenticated = True, organiserId = Some 3,
                           organiserName = Some (ascii ''Priya Patel'')\<rparr>)"
proof -
  let ?s = "three_organisers"
  have q: "organiser_query sqlite_id string_driver ?s (Str (ascii ''3'')) = Some (organisers ?s ! 2)"
    by (simp add: organiser_query_def bind_text_def three_organisers_def seed_store_def
          js_defs sql_defs fl_simps)
  have k: "ToString (Str (ascii ''3'')) \<noteq> ascii ''1''" "ToString (Str (ascii ''3'')) \<noteq> ascii ''2''"
    by simp_all
  have o: "organiser.organiser_id (organisers ?s ! 2) = 3"
      "name (organisers ?s ! 2) = ascii ''Priya Patel''"
    by (simp_all add: three_organisers_def seed_store_def)
  from login_without_password[OF q k, of readme_config fresh_session]
  have "post_login readme_config sqlite_id string_driver Undefined (Str (ascii ''3''))
          (Some fresh_session) ?s =
           (Redirect ''/organiser'',
            Some \<lparr>isAuthenticated = True, organiserId = Some 3,
                  organiserName = Some (ascii ''Priya Patel'')\<rparr>)"
    by (simp add: o fresh_session_def)
  then show ?thesis by (simp add: authenticated_def)
qed

end
